theory Spec2Isabelle
  imports Main "HOL-Library.AList"
begin

section \<open>JavaScript strings and values\<close>

text \<open>
  A JavaScript string is a sequence of UTF-16 code units; a code unit is modelled as a
  natural number. \<open>asc\<close> embeds an ASCII literal.
\<close>

type_synonym jsstring = "nat list"

definition asc :: "string \<Rightarrow> jsstring" where
  "asc s = map of_char s"

text \<open>
  The code units matched by the regular expression class \<open>\s\<close> and stripped by
  \<open>String.prototype.trim\<close>: ECMAScript WhiteSpace and LineTerminator.
\<close>

definition isWhiteSpace :: "nat \<Rightarrow> bool" where
  "isWhiteSpace c \<longleftrightarrow>
     c = 9 \<or> c = 10 \<or> c = 11 \<or> c = 12 \<or> c = 13 \<or> c = 32 \<or> c = 160 \<or> c = 5760 \<or>
     (8192 \<le> c \<and> c \<le> 8202) \<or> c = 8232 \<or> c = 8233 \<or> c = 8239 \<or> c = 8287 \<or>
     c = 12288 \<or> c = 65279"

text \<open>\<open>s.trim()\<close>\<close>

definition trim :: "jsstring \<Rightarrow> jsstring" where
  "trim s = rev (dropWhile isWhiteSpace (rev (dropWhile isWhiteSpace s)))"

text \<open>\<open>s.replace(/\s+/g, '_')\<close>: every maximal run of white space becomes one underscore.\<close>

function replaceWs :: "jsstring \<Rightarrow> jsstring" where
  "replaceWs [] = []"
| "replaceWs (c # cs) =
     (if isWhiteSpace c then 95 # replaceWs (dropWhile isWhiteSpace cs)
      else c # replaceWs cs)"
  by pat_completeness auto
termination
  by (relation "measure length") (auto simp: length_dropWhile_le less_Suc_eq_le)

text \<open>
  \<open>s.split(/\s+/)\<close>: the pieces between maximal runs of white space, the empty pieces
  before a leading run and after a trailing run included; the empty string splits into
  one empty piece.
\<close>

function splitWs :: "jsstring \<Rightarrow> jsstring \<Rightarrow> jsstring list" where
  "splitWs cur [] = [rev cur]"
| "splitWs cur (c # cs) =
     (if isWhiteSpace c then rev cur # splitWs [] (dropWhile isWhiteSpace cs)
      else splitWs (c # cur) cs)"
  by pat_completeness auto
termination
  by (relation "measure (\<lambda>(cur, s). length s)") (auto simp: length_dropWhile_le less_Suc_eq_le)

definition split :: "jsstring \<Rightarrow> jsstring list" where
  "split s = splitWs [] s"

text \<open>\<open>parts.join(' ')\<close>\<close>

fun join :: "jsstring list \<Rightarrow> jsstring" where
  "join [] = []"
| "join [p] = p"
| "join (p # q # ps) = p @ 32 # join (q # ps)"

text \<open>
  \<open>String.prototype.toLowerCase\<close> is a builtin whose Unicode case table is not part of
  the repository; the functions below take it as the parameter \<open>lc\<close>. On strings of
  Basic Latin code units it is the following function.
\<close>

definition toLowerCaseBasic :: "jsstring \<Rightarrow> jsstring" where
  "toLowerCaseBasic s = map (\<lambda>c. if 65 \<le> c \<and> c \<le> 90 then c + 32 else c) s"

text \<open>
  A value held in a cell or in a property. \<open>Other t s\<close> is any value that is neither
  nullish nor a string (a number, a boolean, a date): \<open>t\<close> is its truthiness and \<open>s\<close>
  the result of its \<open>toString()\<close>. Such a value has no \<open>trim\<close> method.
\<close>

datatype jsval = Undefined | Null | Str jsstring | Other bool jsstring

fun truthy :: "jsval \<Rightarrow> bool" where
  "truthy Undefined = False"
| "truthy Null = False"
| "truthy (Str s) = (s \<noteq> [])"
| "truthy (Other t s) = t"

section \<open>Header mapping table\<close>

definition HEADER_MAPPINGS :: "(jsstring \<times> jsstring) list" where
  "HEADER_MAPPINGS = [
     \<comment> \<open>French\<close>
     (asc ''matricule'', asc ''external_id''),
     (asc ''identifiant'', asc ''external_id''),
     (asc ''id_fr'', asc ''external_id''),
     (asc ''nom'', asc ''last_name''),
     (asc ''prenom'', asc ''first_name''),
     (asc ''nom et prenom'', asc ''name''),
     (asc ''nom_et_prenom'', asc ''name''),
     (asc ''datedenaissance'', asc ''birth_date''),
     (asc ''date de naissance'', asc ''birth_date''),
     (asc ''date_de_naissance'', asc ''birth_date''),
     (asc ''courriel'', asc ''email''),
     (asc ''adresse courriel'', asc ''email''),
     (asc ''adresse_courriel'', asc ''email''),
     (asc ''telephone'', asc ''phone''),
     (asc ''numero de telephone'', asc ''phone''),
     (asc ''numero_de_telephone'', asc ''phone''),
     (asc ''adresse'', asc ''address''),
     (asc ''ville'', asc ''city''),
     (asc ''etat'', asc ''state''),
     (asc ''code_postal'', asc ''zip''),
     (asc ''pays'', asc ''country''),
     (asc ''entreprise'', asc ''company''),
     (asc ''titre'', asc ''job_title''),
     (asc ''departement'', asc ''department''),
     (asc ''status_fr'', asc ''status''),
     (asc ''statut'', asc ''status''),
     \<comment> \<open>English\<close>
     (asc ''id'', asc ''external_id''),
     (asc ''identifier'', asc ''external_id''),
     (asc ''name'', asc ''name''),
     (asc ''full name'', asc ''name''),
     (asc ''fullname'', asc ''name''),
     (asc ''full_name'', asc ''name''),
     (asc ''first name'', asc ''first_name''),
     (asc ''first_name'', asc ''first_name''),
     (asc ''firstname'', asc ''first_name''),
     (asc ''last name'', asc ''last_name''),
     (asc ''last_name'', asc ''last_name''),
     (asc ''lastname'', asc ''last_name''),
     (asc ''email'', asc ''email''),
     (asc ''email address'', asc ''email''),
     (asc ''email_address'', asc ''email''),
     (asc ''phone'', asc ''phone''),
     (asc ''phone number'', asc ''phone''),
     (asc ''phone_number'', asc ''phone''),
     (asc ''address'', asc ''address''),
     (asc ''city'', asc ''city''),
     (asc ''state'', asc ''state''),
     (asc ''zip'', asc ''zip''),
     (asc ''zip code'', asc ''zip''),
     (asc ''zip_code'', asc ''zip''),
     (asc ''postal code'', asc ''zip''),
     (asc ''postal_code'', asc ''zip''),
     (asc ''country'', asc ''country''),
     (asc ''company'', asc ''company''),
     (asc ''job title'', asc ''job_title''),
     (asc ''job_title'', asc ''job_title''),
     (asc ''department'', asc ''department''),
     (asc ''birth date'', asc ''birth_date''),
     (asc ''birth_date'', asc ''birth_date''),
     (asc ''date of birth'', asc ''birth_date''),
     (asc ''date_of_birth'', asc ''birth_date''),
     (asc ''status'', asc ''status''),
     \<comment> \<open>Additional English variations with different casing\<close>
     (asc ''ID'', asc ''external_id''),
     (asc ''Id'', asc ''external_id''),
     (asc ''Name'', asc ''name''),
     (asc ''Full Name'', asc ''name''),
     (asc ''FullName'', asc ''name''),
     (asc ''First Name'', asc ''first_name''),
     (asc ''FirstName'', asc ''first_name''),
     (asc ''Last Name'', asc ''last_name''),
     (asc ''LastName'', asc ''last_name''),
     (asc ''Email'', asc ''email''),
     (asc ''Email Address'', asc ''email''),
     (asc ''Phone'', asc ''phone''),
     (asc ''Phone Number'', asc ''phone''),
     (asc ''Address'', asc ''address''),
     (asc ''City'', asc ''city''),
     (asc ''State'', asc ''state''),
     (asc ''Zip'', asc ''zip''),
     (asc ''Zip Code'', asc ''zip''),
     (asc ''Postal Code'', asc ''zip''),
     (asc ''Country'', asc ''country''),
     (asc ''Company'', asc ''company''),
     (asc ''Job Title'', asc ''job_title''),
     (asc ''Department'', asc ''department''),
     (asc ''Birth Date'', asc ''birth_date''),
     (asc ''BirthDate'', asc ''birth_date''),
     (asc ''Date of Birth'', asc ''birth_date''),
     (asc ''DOB'', asc ''birth_date''),
     (asc ''Status'', asc ''status''),
     \<comment> \<open>Russian\<close>
     ([0x0438, 0x0434, 0x0435, 0x043D, 0x0442, 0x0438, 0x0444, 0x0438, 0x043A, 0x0430, 0x0442, 0x043E, 0x0440], asc ''external_id''),
     ([0x0444, 0x0430, 0x043C, 0x0438, 0x043B, 0x0438, 0x044F], asc ''last_name''),
     ([0x0438, 0x043C, 0x044F], asc ''first_name''),
     ([0x043F, 0x043E, 0x043B, 0x043D, 0x043E, 0x0435, 32, 0x0438, 0x043C, 0x044F], asc ''name''),
     ([0x043F, 0x043E, 0x043B, 0x043D, 0x043E, 0x0435, 95, 0x0438, 0x043C, 0x044F], asc ''name''),
     ([0x0434, 0x0430, 0x0442, 0x0430, 32, 0x0440, 0x043E, 0x0436, 0x0434, 0x0435, 0x043D, 0x0438, 0x044F], asc ''birth_date''),
     ([0x0434, 0x0430, 0x0442, 0x0430, 95, 0x0440, 0x043E, 0x0436, 0x0434, 0x0435, 0x043D, 0x0438, 0x044F], asc ''birth_date''),
     ([0x044D, 0x043B, 0x0435, 0x043A, 0x0442, 0x0440, 0x043E, 0x043D, 0x043D, 0x0430, 0x044F, 32, 0x043F, 0x043E, 0x0447, 0x0442, 0x0430], asc ''email''),
     ([0x044D, 0x043B, 0x0435, 0x043A, 0x0442, 0x0440, 0x043E, 0x043D, 0x043D, 0x0430, 0x044F, 95, 0x043F, 0x043E, 0x0447, 0x0442, 0x0430], asc ''email''),
     ([0x0442, 0x0435, 0x043B, 0x0435, 0x0444, 0x043E, 0x043D], asc ''phone''),
     ([0x043D, 0x043E, 0x043C, 0x0435, 0x0440, 32, 0x0442, 0x0435, 0x043B, 0x0435, 0x0444, 0x043E, 0x043D, 0x0430], asc ''phone''),
     ([0x043D, 0x043E, 0x043C, 0x0435, 0x0440, 95, 0x0442, 0x0435, 0x043B, 0x0435, 0x0444, 0x043E, 0x043D, 0x0430], asc ''phone''),
     ([0x0430, 0x0434, 0x0440, 0x0435, 0x0441], asc ''address''),
     ([0x0433, 0x043E, 0x0440, 0x043E, 0x0434], asc ''city''),
     ([0x043E, 0x0431, 0x043B, 0x0430, 0x0441, 0x0442, 0x044C], asc ''state''),
     ([0x043F, 0x043E, 0x0447, 0x0442, 0x043E, 0x0432, 0x044B, 0x0439, 32, 0x0438, 0x043D, 0x0434, 0x0435, 0x043A, 0x0441], asc ''zip''),
     ([0x043F, 0x043E, 0x0447, 0x0442, 0x043E, 0x0432, 0x044B, 0x0439, 95, 0x0438, 0x043D, 0x0434, 0x0435, 0x043A, 0x0441], asc ''zip''),
     ([0x0441, 0x0442, 0x0440, 0x0430, 0x043D, 0x0430], asc ''country''),
     ([0x043A, 0x043E, 0x043C, 0x043F, 0x0430, 0x043D, 0x0438, 0x044F], asc ''company''),
     ([0x0434, 0x043E, 0x043B, 0x0436, 0x043D, 0x043E, 0x0441, 0x0442, 0x044C], asc ''job_title''),
     ([0x043E, 0x0442, 0x0434, 0x0435, 0x043B], asc ''department''),
     ([0x0441, 0x0442, 0x0430, 0x0442, 0x0443, 0x0441], asc ''status''),
     \<comment> \<open>Arabic\<close>
     ([0x0631, 0x0642, 0x0645, 95, 0x0627, 0x0644, 0x062A, 0x0639, 0x0631, 0x064A, 0x0641], asc ''external_id''),
     ([0x0645, 0x0639, 0x0631, 0x0641], asc ''external_id''),
     ([0x0627, 0x0633, 0x0645, 95, 0x0627, 0x0644, 0x0639, 0x0627, 0x0626, 0x0644, 0x0629], asc ''last_name''),
     ([0x0627, 0x0644, 0x0627, 0x0633, 0x0645, 95, 0x0627, 0x0644, 0x0623, 0x0648, 0x0644], asc ''first_name''),
     ([0x0627, 0x0644, 0x0627, 0x0633, 0x0645, 95, 0x0627, 0x0644, 0x0643, 0x0627, 0x0645, 0x0644], asc ''name''),
     ([0x062A, 0x0627, 0x0631, 0x064A, 0x062E, 95, 0x0627, 0x0644, 0x0645, 0x064A, 0x0644, 0x0627, 0x062F], asc ''birth_date''),
     ([0x0627, 0x0644, 0x0628, 0x0631, 0x064A, 0x062F, 95, 0x0627, 0x0644, 0x0625, 0x0644, 0x0643, 0x062A, 0x0631, 0x0648, 0x0646, 0x064A], asc ''email''),
     ([0x0647, 0x0627, 0x062A, 0x0641], asc ''phone''),
     ([0x0631, 0x0642, 0x0645, 95, 0x0627, 0x0644, 0x0647, 0x0627, 0x062A, 0x0641], asc ''phone''),
     ([0x0639, 0x0646, 0x0648, 0x0627, 0x0646], asc ''address''),
     ([0x0645, 0x062F, 0x064A, 0x0646, 0x0629], asc ''city''),
     ([0x0648, 0x0644, 0x0627, 0x064A, 0x0629], asc ''state''),
     ([0x0627, 0x0644, 0x0631, 0x0645, 0x0632, 95, 0x0627, 0x0644, 0x0628, 0x0631, 0x064A, 0x062F, 0x064A], asc ''zip''),
     ([0x0628, 0x0644, 0x062F], asc ''country''),
     ([0x0634, 0x0631, 0x0643, 0x0629], asc ''company''),
     ([0x0627, 0x0644, 0x0645, 0x0633, 0x0645, 0x0649, 95, 0x0627, 0x0644, 0x0648, 0x0638, 0x064A, 0x0641, 0x064A], asc ''job_title''),
     ([0x0642, 0x0633, 0x0645], asc ''department''),
     ([0x0627, 0x0644, 0x062D, 0x0627, 0x0644, 0x0629], asc ''status''),
     \<comment> \<open>Chinese\<close>
     ([0x6807, 0x8BC6, 0x7B26], asc ''external_id''),
     ([0x59D3], asc ''last_name''),
     ([0x540D], asc ''first_name''),
     ([0x5168, 0x540D], asc ''name''),
     ([0x51FA, 0x751F, 0x65E5, 0x671F], asc ''birth_date''),
     ([0x7535, 0x5B50, 0x90AE, 0x4EF6], asc ''email''),
     ([0x7535, 0x8BDD], asc ''phone''),
     ([0x7535, 0x8BDD, 0x53F7, 0x7801], asc ''phone''),
     ([0x5730, 0x5740], asc ''address''),
     ([0x57CE, 0x5E02], asc ''city''),
     ([0x5DDE], asc ''state''),
     ([0x90AE, 0x653F, 0x7F16, 0x7801], asc ''zip''),
     ([0x56FD, 0x5BB6], asc ''country''),
     ([0x516C, 0x53F8], asc ''company''),
     ([0x804C, 0x4F4D], asc ''job_title''),
     ([0x90E8, 0x95E8], asc ''department''),
     ([0x72B6, 0x6001], asc ''status'')

  ]"


section \<open>Objects\<close>

text \<open>
  An object is the list of its own properties in insertion order, with distinct keys.
  \<open>AList.update k v\<close> is the assignment \<open>o[k] = v\<close> (in place for an existing key, at
  the end for a new one) and \<open>AList.delete k\<close> is \<open>delete o[k]\<close>. JavaScript
  enumerates integer-like keys before the others; no key written by the program is
  integer-like unless a spreadsheet header is.
\<close>

type_synonym obj = "(jsstring \<times> jsval) list"

text \<open>
  The read \<open>o.k\<close> of an own property; used only for the canonical field names, none of
  which is inherited from \<open>Object.prototype\<close>.
\<close>

definition get :: "obj \<Rightarrow> jsstring \<Rightarrow> jsval" where
  "get ob k = (case map_of ob k of Some v \<Rightarrow> v | None \<Rightarrow> Undefined)"

text \<open>String conversion of a value inside a template literal.\<close>

fun toStr :: "jsval \<Rightarrow> jsstring" where
  "toStr Undefined = asc ''undefined''"
| "toStr Null = asc ''null''"
| "toStr (Str s) = s"
| "toStr (Other t s) = s"

text \<open>
  The two mapping tables are object literals, so the read \<open>table[key]\<close> also finds the
  members every object inherits from \<open>Object.prototype\<close>.
\<close>

definition objectPrototypeNames :: "jsstring list" where
  "objectPrototypeNames =
     [asc ''constructor'', asc ''__defineGetter__'', asc ''__defineSetter__'',
      asc ''hasOwnProperty'', asc ''__lookupGetter__'', asc ''__lookupSetter__'',
      asc ''isPrototypeOf'', asc ''propertyIsEnumerable'', asc ''toString'',
      asc ''valueOf'', asc ''__proto__'', asc ''toLocaleString'']"

datatype member = MStr jsstring | MInherited jsstring | MUndefined

definition getMember :: "(jsstring \<times> jsstring) list \<Rightarrow> jsstring \<Rightarrow> member" where
  "getMember tbl k =
     (case map_of tbl k of
        Some v \<Rightarrow> MStr v
      | None \<Rightarrow> if k \<in> set objectPrototypeNames then MInherited k else MUndefined)"

fun member_truthy :: "member \<Rightarrow> bool" where
  "member_truthy (MStr s) = (s \<noteq> [])"
| "member_truthy (MInherited p) = True"
| "member_truthy MUndefined = False"

text \<open>
  The property key a member denotes when it is used in \<open>o[member] = v\<close>: a string is
  the key itself, an inherited member is converted to a string (as Node.js prints it).
\<close>

definition protoToString :: "jsstring \<Rightarrow> jsstring" where
  "protoToString p =
     (if p = asc ''__proto__'' then asc ''[object Object]''
      else asc ''function '' @ (if p = asc ''constructor'' then asc ''Object'' else p)
             @ asc ''() { [native code] }'')"

fun propertyKey :: "member \<Rightarrow> jsstring" where
  "propertyKey (MStr s) = s"
| "propertyKey (MInherited p) = protoToString p"
| "propertyKey MUndefined = asc ''undefined''"

section \<open>Excel parser: header normalizer and record shaper\<close>

text \<open>\<open>mapHeader\<close> of \<open>parseExcel\<close>.\<close>

definition mapHeader :: "(jsstring \<Rightarrow> jsstring) \<Rightarrow> jsstring \<Rightarrow> member" where
  "mapHeader lc header =
     (if member_truthy (getMember HEADER_MAPPINGS header) then getMember HEADER_MAPPINGS header
      else let lowerHeader = lc header in
        if member_truthy (getMember HEADER_MAPPINGS lowerHeader)
        then getMember HEADER_MAPPINGS lowerHeader
        else let normalizedHeader = replaceWs lowerHeader in
          if member_truthy (getMember HEADER_MAPPINGS normalizedHeader)
          then getMember HEADER_MAPPINGS normalizedHeader
          else MStr normalizedHeader)"

text \<open>
  The exceptions of the program, as values. Those of \<open>parseExcel\<close> are caught there and
  thrown again as \<open>Error('Failed to parse Excel file: ' + message)\<close>; those of an
  adapter's \<open>saveToDatabase\<close> wrap the message of the failed engine call.
\<close>

datatype error =
    NotEnoughData \<comment> \<open>Excel file does not contain enough data\<close>
  | NotEnoughInformation \<comment> \<open>Excel file does not contain enough information to identify people\<close>
  | NullToString \<comment> \<open>TypeError: \<open>toString\<close> read from \<open>null\<close>\<close>
  | TrimNotAFunction \<comment> \<open>TypeError: \<open>normalized.name.trim\<close> is not a function\<close>
  | InitializeFailed \<comment> \<open>an adapter's \<open>initializeDatabase\<close> rejected\<close>
  | SaveFailed \<comment> \<open>an adapter's \<open>saveToDatabase\<close> rejected\<close>
  | CloseFailed \<comment> \<open>an adapter's \<open>closeDatabase\<close> rejected\<close>

type_synonym row = "jsval list"

text \<open>\<open>header ? header.toString().trim() : ''\<close>\<close>

definition headerText :: "jsval \<Rightarrow> jsstring" where
  "headerText header = (if truthy header then trim (toStr header) else [])"

text \<open>\<open>row[index] !== undefined ? row[index].toString() : ''\<close>, for \<open>index < row.length\<close>.\<close>

fun cellToString :: "jsval \<Rightarrow> error + jsstring" where
  "cellToString Undefined = Inr []"
| "cellToString Null = Inl NullToString"
| "cellToString (Str s) = Inr s"
| "cellToString (Other t s) = Inr s"

text \<open>The row filter: \<open>row.length > 0 && row.some(cell => ...)\<close>.\<close>

definition nonBlank :: "row \<Rightarrow> bool" where
  "nonBlank r \<longleftrightarrow>
     length r > 0 \<and> list_ex (\<lambda>cell. cell \<noteq> Undefined \<and> cell \<noteq> Null \<and> cell \<noteq> Str []) r"

text \<open>\<open>mappedHeaders.forEach((header, index) => ...)\<close>, from position \<open>index\<close> on.\<close>

fun fillPerson :: "member list \<Rightarrow> nat \<Rightarrow> row \<Rightarrow> obj \<Rightarrow> error + obj" where
  "fillPerson [] index r person = Inr person"
| "fillPerson (header # hs) index r person =
     (if index < length r \<and> member_truthy header then
        (case cellToString (r ! index) of
           Inl e \<Rightarrow> Inl e
         | Inr s \<Rightarrow> fillPerson hs (Suc index) r (AList.update (propertyKey header) (Str s) person))
      else fillPerson hs (Suc index) r person)"

text \<open>\<open>xs.indexOf(x)\<close>; \<open>None\<close> is the result \<open>-1\<close>.\<close>

fun indexOf :: "'a list \<Rightarrow> 'a \<Rightarrow> nat option" where
  "indexOf [] x = None"
| "indexOf (y # ys) x = (if y = x then Some 0 else map_option Suc (indexOf ys x))"

text \<open>The template \<open>`${a} ${b}`.trim()\<close>.\<close>

definition fullName :: "jsstring \<Rightarrow> jsstring \<Rightarrow> jsstring" where
  "fullName lastName firstName = trim (lastName @ 32 # firstName)"

text \<open>The body of the \<open>map\<close> over the data rows.\<close>

definition shapeRow :: "member list \<Rightarrow> bool \<Rightarrow> bool \<Rightarrow> bool \<Rightarrow> row \<Rightarrow> error + obj" where
  "shapeRow mappedHeaders hasName hasFirstName hasLastName r =
     (case fillPerson mappedHeaders 0 r [] of
        Inl e \<Rightarrow> Inl e
      | Inr person0 \<Rightarrow>
          let person =
            (if \<not> truthy (get person0 (asc ''name'')) \<and> truthy (get person0 (asc ''first_name''))
                  \<and> truthy (get person0 (asc ''last_name''))
             then AList.update (asc ''name'')
                    (Str (fullName (toStr (get person0 (asc ''last_name'')))
                                   (toStr (get person0 (asc ''first_name''))))) person0
             else person0)
          in
          if \<not> hasName \<and> hasFirstName \<and> hasLastName then
            (case (indexOf mappedHeaders (MStr (asc ''last_name'')),
                   indexOf mappedHeaders (MStr (asc ''first_name''))) of
               (Some lastNameIndex, Some firstNameIndex) \<Rightarrow>
                 if lastNameIndex < length r \<and> firstNameIndex < length r then
                   (case cellToString (r ! lastNameIndex) of
                      Inl e \<Rightarrow> Inl e
                    | Inr lastName \<Rightarrow>
                        (case cellToString (r ! firstNameIndex) of
                           Inl e \<Rightarrow> Inl e
                         | Inr firstName \<Rightarrow>
                             Inr (AList.update (asc ''name'') (Str (fullName lastName firstName))
                                    person)))
                 else Inr person
             | _ \<Rightarrow> Inr person)
          else Inr person)"

text \<open>A \<open>map\<close> whose callback may throw: the first exception aborts it.\<close>

fun mapE :: "('a \<Rightarrow> 'e + 'b) \<Rightarrow> 'a list \<Rightarrow> 'e + 'b list" where
  "mapE f [] = Inr []"
| "mapE f (x # xs) =
     (case f x of
        Inl e \<Rightarrow> Inl e
      | Inr y \<Rightarrow> (case mapE f xs of Inl e \<Rightarrow> Inl e | Inr ys \<Rightarrow> Inr (y # ys)))"

text \<open>
  \<open>parseExcel\<close> from the point where the sheet has been read: \<open>rawData\<close> is the result of
  \<open>sheet_to_json(worksheet, {header: 1})\<close>, the rows of the first sheet.
\<close>

definition shape :: "(jsstring \<Rightarrow> jsstring) \<Rightarrow> row list \<Rightarrow> error + obj list" where
  "shape lc rawData =
     (if length rawData < 2 then Inl NotEnoughData
      else
        let originalHeaders = map headerText (rawData ! 0);
            mappedHeaders = map (mapHeader lc) originalHeaders;
            hasName = (MStr (asc ''name'') \<in> set mappedHeaders);
            hasFirstName = (MStr (asc ''first_name'') \<in> set mappedHeaders);
            hasLastName = (MStr (asc ''last_name'') \<in> set mappedHeaders);
            hasEmail = (MStr (asc ''email'') \<in> set mappedHeaders);
            hasId = (MStr (asc ''external_id'') \<in> set mappedHeaders);
            hasNameComponents = (hasFirstName \<and> hasLastName)
        in
        if \<not> hasName \<and> \<not> hasNameComponents \<and> \<not> hasEmail \<and> \<not> hasId then Inl NotEnoughInformation
        else mapE (shapeRow mappedHeaders hasName hasFirstName hasLastName)
               (filter nonBlank (drop 1 rawData)))"


section \<open>Database module: field normalizer\<close>

text \<open>The table \<open>fieldMappings\<close> of \<open>normalizePersonFields\<close>.\<close>

definition fieldMappings :: "(jsstring \<times> jsstring) list" where
  "fieldMappings = [
     (asc ''id'', asc ''external_id''),
     (asc ''ID'', asc ''external_id''),
     (asc ''identifier'', asc ''external_id''),
     (asc ''Identifier'', asc ''external_id''),
     (asc ''External ID'', asc ''external_id''),
     (asc ''External Id'', asc ''external_id''),
     (asc ''EXTERNAL_ID'', asc ''external_id''),
     (asc ''Name'', asc ''name''),
     (asc ''NAME'', asc ''name''),
     (asc ''First Name'', asc ''first_name''),
     (asc ''FirstName'', asc ''first_name''),
     (asc ''firstname'', asc ''first_name''),
     (asc ''firstName'', asc ''first_name''),
     (asc ''FIRST_NAME'', asc ''first_name''),
     (asc ''prenom'', asc ''first_name''),
     (asc ''Last Name'', asc ''last_name''),
     (asc ''LastName'', asc ''last_name''),
     (asc ''lastname'', asc ''last_name''),
     (asc ''lastName'', asc ''last_name''),
     (asc ''LAST_NAME'', asc ''last_name''),
     (asc ''nom'', asc ''last_name''),
     (asc ''Birth Date'', asc ''birth_date''),
     (asc ''BirthDate'', asc ''birth_date''),
     (asc ''birthdate'', asc ''birth_date''),
     (asc ''birthDate'', asc ''birth_date''),
     (asc ''BIRTH_DATE'', asc ''birth_date''),
     (asc ''date_of_birth'', asc ''birth_date''),
     (asc ''Date of Birth'', asc ''birth_date''),
     (asc ''DOB'', asc ''birth_date''),
     (asc ''Status'', asc ''status''),
     (asc ''STATUS'', asc ''status''),
     (asc ''statut'', asc ''status'')
  ]"

text \<open>
  One step of the loop over \<open>Object.entries(person)\<close>. The comparison
  \<open>key !== fieldMappings[key]\<close> holds for every inherited member, which is not a string.
\<close>

definition applyMapping :: "jsstring \<times> jsval \<Rightarrow> obj \<Rightarrow> obj" where
  "applyMapping entry normalized =
     (case entry of (key, v) \<Rightarrow>
        let m = getMember fieldMappings key in
        if member_truthy m then
          let normalized1 = AList.update (propertyKey m) v normalized in
          if m \<noteq> MStr key then AList.delete key normalized1 else normalized1
        else normalized)"

definition applyMappings :: "obj \<Rightarrow> obj" where
  "applyMappings person = fold applyMapping person person"

text \<open>The first special case: name present, first or last name missing.\<close>

definition splitName :: "obj \<Rightarrow> error + obj" where
  "splitName normalized =
     (if truthy (get normalized (asc ''name''))
         \<and> (\<not> truthy (get normalized (asc ''first_name''))
              \<or> \<not> truthy (get normalized (asc ''last_name'')))
      then
        (case get normalized (asc ''name'') of
           Str s \<Rightarrow>
             let nameParts = split (trim s) in
             if length nameParts \<ge> 2 then
               let normalized1 =
                     (if \<not> truthy (get normalized (asc ''last_name''))
                      then AList.update (asc ''last_name'') (Str (hd nameParts)) normalized
                      else normalized)
               in Inr (if \<not> truthy (get normalized1 (asc ''first_name''))
                       then AList.update (asc ''first_name'') (Str (join (tl nameParts))) normalized1
                       else normalized1)
             else Inr normalized
         | _ \<Rightarrow> Inl TrimNotAFunction)
      else Inr normalized)"

text \<open>The second special case: first and last name present, name missing.\<close>

definition combineName :: "obj \<Rightarrow> obj" where
  "combineName normalized =
     (if \<not> truthy (get normalized (asc ''name''))
         \<and> truthy (get normalized (asc ''first_name''))
         \<and> truthy (get normalized (asc ''last_name''))
      then AList.update (asc ''name'')
             (Str (fullName (toStr (get normalized (asc ''last_name'')))
                            (toStr (get normalized (asc ''first_name''))))) normalized
      else normalized)"

definition normalizePersonFields :: "obj \<Rightarrow> error + obj" where
  "normalizePersonFields person =
     (case splitName (applyMappings person) of
        Inl e \<Rightarrow> Inl e
      | Inr normalized \<Rightarrow> Inr (combineName normalized))"

section \<open>Database adapters\<close>

datatype adapter = Sqlite | Mysql | Postgres

text \<open>The values bound by one \<open>INSERT\<close>; \<open>col_additional_data\<close> is the object handed to
  \<open>JSON.stringify\<close>, or \<open>None\<close> for \<open>null\<close>.\<close>

record dbrow =
  col_external_id :: jsval
  col_first_name :: jsval
  col_last_name :: jsval
  col_birth_date :: jsval
  col_status :: jsval
  col_additional_data :: "obj option"

text \<open>
  Every call an adapter makes on a database engine, in the order of the calls. The number
  is the engine handle the call is made on.
\<close>

datatype op =
    Init adapter
  | Close nat bool
  | Begin nat
  | Prepare nat
  | Insert nat dbrow
  | Commit nat
  | Rollback nat

text \<open>
  The database engines and the process environment are outside the program. Whether a
  call succeeds is given by an oracle that sees all calls made before it.
\<close>

record environment =
  init_ok :: "op list \<Rightarrow> adapter \<Rightarrow> bool"
  close_ok :: "op list \<Rightarrow> nat \<Rightarrow> bool"
  begin_ok :: "op list \<Rightarrow> nat \<Rightarrow> bool"
  prepare_ok :: "op list \<Rightarrow> nat \<Rightarrow> bool"
  insert_ok :: "op list \<Rightarrow> nat \<Rightarrow> dbrow \<Rightarrow> bool"
  commit_ok :: "op list \<Rightarrow> nat \<Rightarrow> bool"
  rollback_ok :: "op list \<Rightarrow> nat \<Rightarrow> bool"
  env_DB_TYPE :: "jsstring option"

text \<open>
  The outcome of an asynchronous call: \<open>Some (Inr v, s)\<close> is a promise resolved with
  \<open>v\<close>, \<open>Some (Inl e, s)\<close> a promise rejected with \<open>e\<close>, both in the state \<open>s\<close>;
  \<open>None\<close> is a call whose result is never used, because the process ends on an
  unhandled \<open>error\<close> event or because a loop does not end.
\<close>

text \<open>A count that may be \<open>undefined\<close>, or \<open>NaN\<close> after adding \<open>undefined\<close>.\<close>

datatype count = Count nat | NoCount | NaN

fun addCount :: "count \<Rightarrow> count \<Rightarrow> count" where
  "addCount (Count a) (Count b) = Count (a + b)"
| "addCount _ _ = NaN"

record save_result =
  inserted :: nat
  errors :: count

text \<open>\<open>v || ''\<close>\<close>

definition orEmpty :: "jsval \<Rightarrow> jsval" where
  "orEmpty v = (if truthy v then v else Str [])"

definition knownFields :: "jsstring list" where
  "knownFields = [asc ''external_id'', asc ''first_name'', asc ''last_name'',
                  asc ''birth_date'', asc ''status'']"

text \<open>The skip test of the three adapters.\<close>

definition skip :: "obj \<Rightarrow> bool" where
  "skip person \<longleftrightarrow>
     \<not> truthy (get person (asc ''birth_date'')) \<and> \<not> truthy (get person (asc ''external_id''))
     \<and> \<not> (truthy (get person (asc ''first_name'')) \<and> truthy (get person (asc ''last_name'')))"

definition toRow :: "obj \<Rightarrow> dbrow" where
  "toRow person =
     (let additionalData = filter (\<lambda>(k, v). k \<notin> set knownFields) person in
      \<lparr> col_external_id = orEmpty (get person (asc ''external_id'')),
        col_first_name = orEmpty (get person (asc ''first_name'')),
        col_last_name = orEmpty (get person (asc ''last_name'')),
        col_birth_date = orEmpty (get person (asc ''birth_date'')),
        col_status = orEmpty (get person (asc ''status'')),
        col_additional_data = (if length additionalData > 0 then Some additionalData else None) \<rparr>)"

text \<open>
  The handling of one person: the state is the two counters and the calls made so far.
\<close>

definition insertPerson ::
  "environment \<Rightarrow> nat \<Rightarrow> obj \<Rightarrow> nat \<times> nat \<times> op list \<Rightarrow> nat \<times> nat \<times> op list" where
  "insertPerson env db person acc =
     (case acc of (ins, errs, hist) \<Rightarrow>
        if skip person then (ins, errs, hist)
        else if insert_ok env hist db (toRow person)
             then (ins + 1, errs, hist @ [Insert db (toRow person)])
             else (ins, errs + 1, hist @ [Insert db (toRow person)]))"

text \<open>
  \<open>saveToDatabase\<close> of the SQLite adapter. \<open>BEGIN TRANSACTION\<close>, the preparation of
  the statement and the \<open>ROLLBACK\<close> after a refused \<open>COMMIT\<close> are issued without a
  callback: when the engine refuses one of them, the error is emitted as an \<open>error\<close>
  event that nothing listens to, and the process ends. The inserts and \<open>COMMIT\<close> have
  callbacks; the statements run in the order they were queued.
\<close>

definition saveToDatabase_sqlite ::
  "environment \<Rightarrow> nat \<Rightarrow> obj list \<Rightarrow> op list \<Rightarrow> ((error + save_result) \<times> op list) option" where
  "saveToDatabase_sqlite env db people hist =
     (if length people = 0 then Some (Inr \<lparr> inserted = 0, errors = NoCount \<rparr>, hist)
      else if \<not> begin_ok env hist db then None
      else if \<not> prepare_ok env (hist @ [Begin db]) db then None
      else
        (case fold (insertPerson env db) people (0, 0, hist @ [Begin db, Prepare db]) of
           (ins, errs, hist1) \<Rightarrow>
             if commit_ok env hist1 db
             then Some (Inr \<lparr> inserted = ins, errors = Count errs \<rparr>, hist1 @ [Commit db])
             else if rollback_ok env (hist1 @ [Commit db]) db
             then Some (Inl SaveFailed, hist1 @ [Commit db, Rollback db])
             else None))"

text \<open>
  The loop \<open>for (let i = 0; i < people.length; i += batchSize)\<close> of the MySQL and the
  PostgreSQL adapter, with \<open>batchSize = 100\<close>. The statements of a batch are issued in
  the order of the batch, on one connection.
\<close>

function batchLoop ::
  "environment \<Rightarrow> nat \<Rightarrow> obj list \<Rightarrow> nat \<Rightarrow> nat \<times> nat \<times> op list \<Rightarrow> nat \<times> nat \<times> op list" where
  "batchLoop env conn people i acc =
     (if i < length people
      then batchLoop env conn people (i + 100)
             (fold (insertPerson env conn) (take 100 (drop i people)) acc)
      else acc)"
  by pat_completeness auto
termination
  by (relation "measure (\<lambda>(env, conn, people, i, acc). length people - i)") auto

declare batchLoop.simps [simp del]

text \<open>
  \<open>saveToDatabase\<close> of the MySQL adapter and of the PostgreSQL adapter, the same text
  but for the client calls. Every engine call is awaited inside \<open>try\<close>; an error of the
  rollback is caught and logged.
\<close>

definition saveBatched ::
  "environment \<Rightarrow> nat \<Rightarrow> obj list \<Rightarrow> op list \<Rightarrow> ((error + save_result) \<times> op list) option" where
  "saveBatched env conn people hist =
     (if length people = 0 then Some (Inr \<lparr> inserted = 0, errors = NoCount \<rparr>, hist)
      else if \<not> begin_ok env hist conn
      then Some (Inl SaveFailed, hist @ [Begin conn, Rollback conn])
      else
        (case batchLoop env conn people 0 (0, 0, hist @ [Begin conn]) of
           (ins, errs, hist1) \<Rightarrow>
             if commit_ok env hist1 conn
             then Some (Inr \<lparr> inserted = ins, errors = Count errs \<rparr>, hist1 @ [Commit conn])
             else Some (Inl SaveFailed, hist1 @ [Commit conn, Rollback conn])))"

definition saveToDatabase_mysql ::
  "environment \<Rightarrow> nat \<Rightarrow> obj list \<Rightarrow> op list \<Rightarrow> ((error + save_result) \<times> op list) option" where
  "saveToDatabase_mysql = saveBatched"

definition saveToDatabase_postgres ::
  "environment \<Rightarrow> nat \<Rightarrow> obj list \<Rightarrow> op list \<Rightarrow> ((error + save_result) \<times> op list) option" where
  "saveToDatabase_postgres = saveBatched"

text \<open>\<open>adapter.saveToDatabase(connection, people)\<close>\<close>

fun adapterSave ::
  "adapter \<Rightarrow> environment \<Rightarrow> nat \<Rightarrow> obj list \<Rightarrow> op list
     \<Rightarrow> ((error + save_result) \<times> op list) option" where
  "adapterSave Sqlite = saveToDatabase_sqlite"
| "adapterSave Mysql = saveToDatabase_mysql"
| "adapterSave Postgres = saveToDatabase_postgres"

text \<open>
  \<open>adapter.closeDatabase(connection, forceClose)\<close>: the result is whether the promise
  resolves. The PostgreSQL adapter catches every error of its engine calls.
\<close>

fun closeDatabase :: "adapter \<Rightarrow> environment \<Rightarrow> nat \<Rightarrow> bool \<Rightarrow> op list \<Rightarrow> bool \<times> op list" where
  "closeDatabase Postgres env conn forceClose hist = (True, hist @ [Close conn forceClose])"
| "closeDatabase a env conn forceClose hist = (close_ok env hist conn, hist @ [Close conn False])"

section \<open>Database module: connection registry\<close>

record connectionObject =
  connection :: nat
  adapter :: adapter
  ctype :: jsstring

text \<open>The module state: the map \<open>activeConnections\<close>, and the calls made on the engines.\<close>

record state =
  activeConnections :: "(jsstring \<times> connectionObject) list"
  history :: "op list"

text \<open>
  The options of \<open>getConnection\<close>: \<open>otype\<close> is \<open>options.type\<close>. The path and the
  connection parameters only reach \<open>initializeDatabase\<close>, whose outcome is the oracle's.
\<close>

record options =
  otype :: "jsstring option"

definition getAdapter :: "(jsstring \<Rightarrow> jsstring) \<Rightarrow> jsstring \<Rightarrow> adapter" where
  "getAdapter lc dbType =
     (if lc dbType = asc ''mysql'' then Mysql
      else if lc dbType = asc ''postgres'' \<or> lc dbType = asc ''postgresql'' then Postgres
      else Sqlite)"

text \<open>\<open>a || b\<close> on optional strings: the first one that is defined and not empty.\<close>

definition orElse :: "jsstring option \<Rightarrow> jsstring option \<Rightarrow> jsstring option" where
  "orElse a b = (case a of Some s \<Rightarrow> if s \<noteq> [] then Some s else b | None \<Rightarrow> b)"

definition connectionKey :: "jsstring option \<Rightarrow> jsstring" where
  "connectionKey connectionId = (case connectionId of Some k \<Rightarrow> k | None \<Rightarrow> asc ''default'')"

text \<open>
  \<open>getConnection\<close>. A new connection object is identified by its engine handle, which is
  the number of engine calls made before it was opened.
\<close>

definition getConnection ::
  "environment \<Rightarrow> (jsstring \<Rightarrow> jsstring) \<Rightarrow> jsstring option \<Rightarrow> options \<Rightarrow> state
     \<Rightarrow> (error + connectionObject) \<times> state" where
  "getConnection env lc connectionId opts st =
     (case map_of (activeConnections st) (connectionKey connectionId) of
        Some connectionObject \<Rightarrow> (Inr connectionObject, st)
      | None \<Rightarrow>
          let dbType = (case orElse (orElse (otype opts) (env_DB_TYPE env)) (Some (asc ''sqlite''))
                        of Some t \<Rightarrow> t | None \<Rightarrow> asc ''sqlite'');
              a = getAdapter lc dbType;
              hist = history st
          in
          if init_ok env hist a then
            let connectionObject = \<lparr> connection = length hist, adapter = a, ctype = dbType \<rparr> in
            (Inr connectionObject,
             st \<lparr> activeConnections :=
                    AList.update (connectionKey connectionId) connectionObject (activeConnections st),
                  history := hist @ [Init a] \<rparr>)
          else (Inl InitializeFailed, st \<lparr> history := hist @ [Init a] \<rparr>))"

text \<open>\<open>closeConnection\<close>: when the adapter's close rejects, the entry is not deleted.\<close>

definition closeConnection ::
  "environment \<Rightarrow> jsstring option \<Rightarrow> bool \<Rightarrow> state \<Rightarrow> (error + unit) \<times> state" where
  "closeConnection env connectionId forceClose st =
     (case map_of (activeConnections st) (connectionKey connectionId) of
        None \<Rightarrow> (Inr (), st)
      | Some connectionObject \<Rightarrow>
          (case (if ctype connectionObject = asc ''postgres'' \<or> ctype connectionObject = asc ''postgresql''
                 then closeDatabase (adapter connectionObject) env (connection connectionObject)
                        forceClose (history st)
                 else closeDatabase (adapter connectionObject) env (connection connectionObject)
                        False (history st)) of
             (ok, hist) \<Rightarrow>
               if ok then
                 (Inr (), st \<lparr> activeConnections :=
                                AList.delete (connectionKey connectionId) (activeConnections st),
                              history := hist \<rparr>)
               else (Inl CloseFailed, st \<lparr> history := hist \<rparr>)))"

text \<open>
  \<open>saveToDatabase\<close> of the database module, for a connection object returned by
  \<open>getConnection\<close> (which has the method \<open>saveToDatabase\<close>).
\<close>

definition saveToDatabase ::
  "environment \<Rightarrow> connectionObject \<Rightarrow> obj list \<Rightarrow> state
     \<Rightarrow> ((error + save_result) \<times> state) option" where
  "saveToDatabase env db people st =
     (case mapE normalizePersonFields people of
        Inl e \<Rightarrow> Some (Inl e, st)
      | Inr normalizedPeople \<Rightarrow>
          (case adapterSave (adapter db) env (connection db) normalizedPeople (history st) of
             None \<Rightarrow> None
           | Some (res, hist) \<Rightarrow> Some (res, st \<lparr> history := hist \<rparr>)))"

section \<open>Import orchestrator\<close>

text \<open>
  The options of \<open>processExcelFile\<close> that it reads after the parse. The chunk size is a
  JavaScript number, modelled as an integer of either sign; \<open>None\<close> is an option that is
  not given (\<open>NaN\<close> is falsy like \<open>0\<close>).
\<close>

record processOptions =
  connectionId :: "jsstring option"
  dbOptions :: options
  chunkSize :: "int option"

text \<open>\<open>options.chunkSize || 100000\<close>\<close>

definition effectiveChunkSize :: "processOptions \<Rightarrow> int" where
  "effectiveChunkSize opts =
     (case chunkSize opts of Some c \<Rightarrow> if c \<noteq> 0 then c else 100000 | None \<Rightarrow> 100000)"

text \<open>
  \<open>xs.slice(start, end)\<close>: a negative index counts from the end of the array, and both
  indices are clamped to the array.
\<close>

definition sliceIndex :: "int \<Rightarrow> nat \<Rightarrow> nat" where
  "sliceIndex k len = (if k < 0 then nat (max (int len + k) 0) else min (nat k) len)"

definition arraySlice :: "'a list \<Rightarrow> int \<Rightarrow> int \<Rightarrow> 'a list" where
  "arraySlice xs start fin =
     take (sliceIndex fin (length xs) - sliceIndex start (length xs))
       (drop (sliceIndex start (length xs)) xs)"

text \<open>
  The loop \<open>for (let i = 0; i < people.length; i += chunkSize)\<close>; it does not end when
  the chunk size is negative and the list is not empty.
\<close>

partial_function (option) chunkLoop ::
  "environment \<Rightarrow> connectionObject \<Rightarrow> obj list \<Rightarrow> int \<Rightarrow> int \<Rightarrow> nat \<Rightarrow> count \<Rightarrow> state
     \<Rightarrow> ((error + save_result) \<times> state) option" where
  "chunkLoop env db people csize i totalInserted totalErrors st =
     (if i < int (length people) then
        (case saveToDatabase env db (arraySlice people i (i + csize)) st of
           None \<Rightarrow> None
         | Some (Inl e, st1) \<Rightarrow> Some (Inl e, st1)
         | Some (Inr result, st1) \<Rightarrow>
             chunkLoop env db people csize (i + csize) (totalInserted + inserted result)
               (addCount totalErrors (errors result)) st1)
      else Some (Inr \<lparr> inserted = totalInserted, errors = totalErrors \<rparr>, st))"

text \<open>
  \<open>processExcelFile\<close> from the point where \<open>parseExcel\<close> has settled: \<open>parsed\<close> is
  its outcome.
\<close>

definition processExcelFile ::
  "environment \<Rightarrow> (jsstring \<Rightarrow> jsstring) \<Rightarrow> error + obj list \<Rightarrow> processOptions \<Rightarrow> state
     \<Rightarrow> ((error + save_result) \<times> state) option" where
  "processExcelFile env lc parsed opts st =
     (let onError = (\<lambda>e st1. Some (Inl e, snd (closeConnection env (connectionId opts) False st1))) in
      case parsed of
        Inl e \<Rightarrow> onError e st
      | Inr people \<Rightarrow>
          (case getConnection env lc (connectionId opts) (dbOptions opts) st of
             (Inl e, st1) \<Rightarrow> onError e st1
           | (Inr db, st1) \<Rightarrow>
               (case (if int (length people) \<le> effectiveChunkSize opts
                      then saveToDatabase env db people st1
                      else chunkLoop env db people (effectiveChunkSize opts) 0 0 (Count 0) st1) of
                  None \<Rightarrow> None
                | Some (Inl e, st2) \<Rightarrow> onError e st2
                | Some (Inr totals, st2) \<Rightarrow>
                    (case closeConnection env (connectionId opts) False st2 of
                       (Inl e, st3) \<Rightarrow> onError e st3
                     | (Inr u, st3) \<Rightarrow> Some (Inr totals, st3)))))"

section \<open>Vocabulary of the properties\<close>

text \<open>The canonical field names, the values of \<open>fieldMappings\<close>.\<close>

definition canonicalNames :: "jsstring list" where
  "canonicalNames = [asc ''external_id'', asc ''name'', asc ''first_name'', asc ''last_name'',
                     asc ''birth_date'', asc ''status'']"

text \<open>
  Mapped headers that can identify a person: a name, a first and a last name, an email or
  an external identifier among them.
\<close>

definition identifiable :: "member list \<Rightarrow> bool" where
  "identifiable mappedHeaders \<longleftrightarrow>
     MStr (asc ''name'') \<in> set mappedHeaders
     \<or> (MStr (asc ''first_name'') \<in> set mappedHeaders \<and> MStr (asc ''last_name'') \<in> set mappedHeaders)
     \<or> MStr (asc ''email'') \<in> set mappedHeaders
     \<or> MStr (asc ''external_id'') \<in> set mappedHeaders"

text \<open>A key that the loop of \<open>normalizePersonFields\<close> renames.\<close>

definition isAlias :: "jsstring \<Rightarrow> bool" where
  "isAlias k \<longleftrightarrow> member_truthy (getMember fieldMappings k)"

text \<open>A record the adapters insert: the negation of their skip test.\<close>

definition eligible :: "obj \<Rightarrow> bool" where
  "eligible person \<longleftrightarrow> \<not> skip person"



text \<open>The calls that open the transaction of a save, by adapter.\<close>

definition openingCalls :: "adapter \<Rightarrow> nat \<Rightarrow> op list" where
  "openingCalls a c = (if a = Sqlite then [Begin c, Prepare c] else [Begin c])"

text \<open>
  The outcome of each of a sequence of insert attempts on the handle \<open>c\<close>, the first one
  made after the calls \<open>hist\<close>.
\<close>

fun outcomes :: "environment \<Rightarrow> nat \<Rightarrow> op list \<Rightarrow> dbrow list \<Rightarrow> bool list" where
  "outcomes env c hist [] = []"
| "outcomes env c hist (r # rs) = insert_ok env hist c r # outcomes env c (hist @ [Insert c r]) rs"

text \<open>
  A sample environment: an engine that rejects the rows whose external identifier is
  \<open>BAD\<close> and accepts every other call; \<open>DB_TYPE\<close> is not set.
\<close>

definition sampleEnv :: environment where
  "sampleEnv =
     \<lparr> init_ok = (\<lambda>hist a. True),
       close_ok = (\<lambda>hist c. True),
       begin_ok = (\<lambda>hist c. True),
       prepare_ok = (\<lambda>hist c. True),
       insert_ok = (\<lambda>hist c r. col_external_id r \<noteq> Str (asc ''BAD'')),
       commit_ok = (\<lambda>hist c. True),
       rollback_ok = (\<lambda>hist c. True),
       env_DB_TYPE = None \<rparr>"



definition emptyState :: state where
  "emptyState = \<lparr> activeConnections = [], history = [] \<rparr>"


section \<open>Basic facts about strings and table lookups\<close>

lemma asc_eq_iff [simp]: "asc s = asc t \<longleftrightarrow> s = t"
  unfolding asc_def by (rule inj_map_eq_map) (rule inj_of_char)

lemma asc_Nil_iff [simp]: "asc s = [] \<longleftrightarrow> s = []" "[] = asc s \<longleftrightarrow> s = []"
  by (auto simp: asc_def)

lemma asc_Cons_eq [simp]:
  "asc (c # cs) = n # ns \<longleftrightarrow> of_char c = n \<and> asc cs = ns"
  "n # ns = asc (c # cs) \<longleftrightarrow> n = of_char c \<and> ns = asc cs"
  by (auto simp: asc_def)

lemma map_of_key_cong: "k = k' \<Longrightarrow> map_of ps k = map_of ps k'"
  by simp

lemmas lookup_simps =
  map_of_Cons_code asc_eq_iff asc_Cons_eq list.inject char.inject simp_thms if_False if_True
  list.distinct option.simps

lemma getMember_own: "map_of tbl k = Some v \<Longrightarrow> getMember tbl k = MStr v"
  by (simp add: getMember_def)

lemma getMember_absent:
  "map_of tbl k = None \<Longrightarrow> k \<notin> set objectPrototypeNames \<Longrightarrow> getMember tbl k = MUndefined"
  by (simp add: getMember_def)

section \<open>The record shaper on the sample sheet\<close>

lemma HEADER_MAPPINGS_sample:
  "map_of HEADER_MAPPINGS (asc ''matricule'') = Some (asc ''external_id'')"
  "map_of HEADER_MAPPINGS (asc ''nom'') = Some (asc ''last_name'')"
  "map_of HEADER_MAPPINGS (asc ''prenom'') = Some (asc ''first_name'')"
  "map_of HEADER_MAPPINGS (asc ''datedenaissance'') = Some (asc ''birth_date'')"
  "map_of HEADER_MAPPINGS (asc ''status'') = Some (asc ''status'')"
  unfolding HEADER_MAPPINGS_def
  by (simp_all only: lookup_simps cong: map_of_key_cong)

lemma mapHeader_exact:
  "map_of HEADER_MAPPINGS h = Some c \<Longrightarrow> c \<noteq> [] \<Longrightarrow> mapHeader lc h = MStr c"
  by (simp add: mapHeader_def getMember_own)

lemma mapHeader_sample:
  "mapHeader lc (asc ''matricule'') = MStr (asc ''external_id'')"
  "mapHeader lc (asc ''nom'') = MStr (asc ''last_name'')"
  "mapHeader lc (asc ''prenom'') = MStr (asc ''first_name'')"
  "mapHeader lc (asc ''datedenaissance'') = MStr (asc ''birth_date'')"
  "mapHeader lc (asc ''status'') = MStr (asc ''status'')"
  by (simp_all add: mapHeader_exact HEADER_MAPPINGS_sample)

lemma headerText_sample:
  "headerText (Str (asc ''matricule'')) = asc ''matricule''"
  "headerText (Str (asc ''nom'')) = asc ''nom''"
  "headerText (Str (asc ''prenom'')) = asc ''prenom''"
  "headerText (Str (asc ''datedenaissance'')) = asc ''datedenaissance''"
  "headerText (Str (asc ''status'')) = asc ''status''"
  by (simp_all add: headerText_def trim_def isWhiteSpace_def asc_def)

lemma fullName_Girard_David: "fullName (asc ''Girard'') (asc ''David'') = asc ''Girard David''"
  by (simp add: fullName_def trim_def isWhiteSpace_def asc_def)

lemma shapeRow_sample:
  "shapeRow [MStr (asc ''external_id''), MStr (asc ''last_name''), MStr (asc ''first_name''),
             MStr (asc ''birth_date''), MStr (asc ''status'')] False True True
     [Str (asc ''FRSE2X8S''), Str (asc ''Girard''), Str (asc ''David''),
      Str (asc ''1984-09-21''), Str (asc ''Inactif'')]
   = Inr [(asc ''external_id'', Str (asc ''FRSE2X8S'')),
          (asc ''last_name'', Str (asc ''Girard'')),
          (asc ''first_name'', Str (asc ''David'')),
          (asc ''birth_date'', Str (asc ''1984-09-21'')),
          (asc ''status'', Str (asc ''Inactif'')),
          (asc ''name'', Str (asc ''Girard David''))]"
  by (simp add: shapeRow_def get_def fullName_Girard_David)

text \<open>
  Claim C1. For the header row \<open>matricule, nom, prenom, datedenaissance, status\<close> and the
  single data row \<open>FRSE2X8S, Girard, David, 1984-09-21, Inactif\<close> the record shaper
  returns exactly one record, with \<open>external_id\<close>, \<open>last_name\<close>, \<open>first_name\<close>,
  \<open>birth_date\<close> and \<open>status\<close> taken from the row and \<open>name\<close> equal to
  \<open>Girard David\<close>, whatever \<open>toLowerCase\<close> does.
\<close>

theorem shape_sample_sheet:
  "shape lc
     [[Str (asc ''matricule''), Str (asc ''nom''), Str (asc ''prenom''),
       Str (asc ''datedenaissance''), Str (asc ''status'')],
      [Str (asc ''FRSE2X8S''), Str (asc ''Girard''), Str (asc ''David''),
       Str (asc ''1984-09-21''), Str (asc ''Inactif'')]]
   = Inr [[(asc ''external_id'', Str (asc ''FRSE2X8S'')),
           (asc ''last_name'', Str (asc ''Girard'')),
           (asc ''first_name'', Str (asc ''David'')),
           (asc ''birth_date'', Str (asc ''1984-09-21'')),
           (asc ''status'', Str (asc ''Inactif'')),
           (asc ''name'', Str (asc ''Girard David''))]]"
  by (simp add: shape_def Let_def headerText_sample mapHeader_sample nonBlank_def shapeRow_sample)

section \<open>The header normalizer\<close>

lemma HEADER_MAPPINGS_values: "map_of HEADER_MAPPINGS k = Some v \<Longrightarrow> v \<noteq> []"
proof -
  have "list_all (\<lambda>kv. snd kv \<noteq> []) HEADER_MAPPINGS"
    unfolding HEADER_MAPPINGS_def
    by (simp only: list_all_Nil_iff list_all_Cons_iff snd_conv asc_Nil_iff list.distinct simp_thms)
  then have "\<forall>kv \<in> set HEADER_MAPPINGS. snd kv \<noteq> []"
    by (simp only: list_all_iff)
  moreover assume "map_of HEADER_MAPPINGS k = Some v"
  then have "(k, v) \<in> set HEADER_MAPPINGS" by (rule map_of_SomeD)
  ultimately show "v \<noteq> []" by force
qed

text \<open>
  The lookup order of \<open>mapHeader\<close>: a header is looked up as it is, then lowercased,
  then lowercased with every run of white space replaced by one underscore, and otherwise
  that last string is returned. A header that is a key of the table gets the key's
  canonical name; a header that is no key but whose lowercased form is one gets the
  canonical name of the lowercased form; a header for which neither is a key but whose
  lowercased and underscored form is one gets the canonical name of that form; a header
  none of whose forms is a key is returned lowercased and underscored. The steps after
  the first are stated for headers whose tried forms are not names of members inherited
  from \<open>Object.prototype\<close>.
\<close>

lemma mapHeader_lookup_order:
  "(map_of HEADER_MAPPINGS h = Some c \<longrightarrow> mapHeader lc h = MStr c) \<and>
   (map_of HEADER_MAPPINGS h = None \<and> h \<notin> set objectPrototypeNames \<and>
    map_of HEADER_MAPPINGS (lc h) = Some c \<longrightarrow> mapHeader lc h = MStr c) \<and>
   (map_of HEADER_MAPPINGS h = None \<and> h \<notin> set objectPrototypeNames \<and>
    map_of HEADER_MAPPINGS (lc h) = None \<and> lc h \<notin> set objectPrototypeNames \<and>
    map_of HEADER_MAPPINGS (replaceWs (lc h)) = Some c \<longrightarrow> mapHeader lc h = MStr c) \<and>
   (map_of HEADER_MAPPINGS h = None \<and> h \<notin> set objectPrototypeNames \<and>
    map_of HEADER_MAPPINGS (lc h) = None \<and> lc h \<notin> set objectPrototypeNames \<and>
    map_of HEADER_MAPPINGS (replaceWs (lc h)) = None \<and>
    replaceWs (lc h) \<notin> set objectPrototypeNames \<longrightarrow> mapHeader lc h = MStr (replaceWs (lc h)))"
  by (auto simp: mapHeader_def Let_def getMember_own getMember_absent dest: HEADER_MAPPINGS_values)

lemma HEADER_MAPPINGS_lookups:
  "map_of HEADER_MAPPINGS (asc ''DOB'') = Some (asc ''birth_date'')"
  "map_of HEADER_MAPPINGS (asc ''dob'') = None"
  "map_of HEADER_MAPPINGS (asc ''MATRICULE'') = None"
  "map_of HEADER_MAPPINGS (asc ''Code  Postal'') = None"
  "map_of HEADER_MAPPINGS (asc ''code  postal'') = None"
  "map_of HEADER_MAPPINGS (asc ''code_postal'') = Some (asc ''zip'')"
  "map_of HEADER_MAPPINGS (asc ''Shoe Size'') = None"
  "map_of HEADER_MAPPINGS (asc ''shoe size'') = None"
  "map_of HEADER_MAPPINGS (asc ''shoe_size'') = None"
  "map_of HEADER_MAPPINGS (asc ''constructor'') = None"
  unfolding HEADER_MAPPINGS_def
  by (simp_all only: lookup_simps cong: map_of_key_cong) simp_all

lemma toLowerCaseBasic_samples:
  "toLowerCaseBasic (asc ''DOB'') = asc ''dob''"
  "toLowerCaseBasic (asc ''dob'') = asc ''dob''"
  "toLowerCaseBasic (asc ''MATRICULE'') = asc ''matricule''"
  "toLowerCaseBasic (asc ''Code  Postal'') = asc ''code  postal''"
  "toLowerCaseBasic (asc ''Shoe Size'') = asc ''shoe size''"
  by (simp_all add: toLowerCaseBasic_def asc_def)

lemma replaceWs_samples:
  "replaceWs (asc ''dob'') = asc ''dob''"
  "replaceWs (asc ''code  postal'') = asc ''code_postal''"
  "replaceWs (asc ''shoe size'') = asc ''shoe_size''"
  by (simp_all add: asc_def isWhiteSpace_def)

lemma not_inherited_samples:
  "asc ''dob'' \<notin> set objectPrototypeNames"
  "asc ''MATRICULE'' \<notin> set objectPrototypeNames"
  "asc ''Code  Postal'' \<notin> set objectPrototypeNames"
  "asc ''code  postal'' \<notin> set objectPrototypeNames"
  "asc ''Shoe Size'' \<notin> set objectPrototypeNames"
  "asc ''shoe size'' \<notin> set objectPrototypeNames"
  "asc ''shoe_size'' \<notin> set objectPrototypeNames"
  by (simp_all add: objectPrototypeNames_def)

text \<open>
  The four steps at \<open>DOB\<close> (a key), \<open>MATRICULE\<close> (lowercased form is a key),
  \<open>Code  Postal\<close> (lowercased and underscored form is a key) and \<open>Shoe Size\<close> (no form
  is a key).
\<close>

lemma mapHeader_lookup_order_samples:
  "mapHeader toLowerCaseBasic (asc ''DOB'') = MStr (asc ''birth_date'') \<and>
   mapHeader toLowerCaseBasic (asc ''MATRICULE'') = MStr (asc ''external_id'') \<and>
   mapHeader toLowerCaseBasic (asc ''Code  Postal'') = MStr (asc ''zip'') \<and>
   mapHeader toLowerCaseBasic (asc ''Shoe Size'') = MStr (asc ''shoe_size'')"
  using mapHeader_lookup_order [of "asc ''DOB''" "asc ''birth_date''" toLowerCaseBasic]
    mapHeader_lookup_order [of "asc ''MATRICULE''" "asc ''external_id''" toLowerCaseBasic]
    mapHeader_lookup_order [of "asc ''Code  Postal''" "asc ''zip''" toLowerCaseBasic]
    mapHeader_lookup_order [of "asc ''Shoe Size''" "asc ''zip''" toLowerCaseBasic]
  by (simp add: HEADER_MAPPINGS_lookups HEADER_MAPPINGS_sample toLowerCaseBasic_samples
        replaceWs_samples not_inherited_samples)

text \<open>
  The keys of the table written with capital letters, but for \<open>DOB\<close> and \<open>BirthDate\<close>,
  have a sibling row for their all-lowercase form, with the same canonical name.
\<close>

lemma toLowerCaseBasic_cased_keys:
  "toLowerCaseBasic (asc ''ID'') = asc ''id''"
  "toLowerCaseBasic (asc ''Id'') = asc ''id''"
  "toLowerCaseBasic (asc ''Name'') = asc ''name''"
  "toLowerCaseBasic (asc ''Full Name'') = asc ''full name''"
  "toLowerCaseBasic (asc ''FullName'') = asc ''fullname''"
  "toLowerCaseBasic (asc ''First Name'') = asc ''first name''"
  "toLowerCaseBasic (asc ''FirstName'') = asc ''firstname''"
  "toLowerCaseBasic (asc ''Last Name'') = asc ''last name''"
  "toLowerCaseBasic (asc ''LastName'') = asc ''lastname''"
  "toLowerCaseBasic (asc ''Email'') = asc ''email''"
  "toLowerCaseBasic (asc ''Email Address'') = asc ''email address''"
  "toLowerCaseBasic (asc ''Phone'') = asc ''phone''"
  "toLowerCaseBasic (asc ''Phone Number'') = asc ''phone number''"
  "toLowerCaseBasic (asc ''Address'') = asc ''address''"
  "toLowerCaseBasic (asc ''City'') = asc ''city''"
  "toLowerCaseBasic (asc ''State'') = asc ''state''"
  "toLowerCaseBasic (asc ''Zip'') = asc ''zip''"
  "toLowerCaseBasic (asc ''Zip Code'') = asc ''zip code''"
  "toLowerCaseBasic (asc ''Postal Code'') = asc ''postal code''"
  "toLowerCaseBasic (asc ''Country'') = asc ''country''"
  "toLowerCaseBasic (asc ''Company'') = asc ''company''"
  "toLowerCaseBasic (asc ''Job Title'') = asc ''job title''"
  "toLowerCaseBasic (asc ''Department'') = asc ''department''"
  "toLowerCaseBasic (asc ''Birth Date'') = asc ''birth date''"
  "toLowerCaseBasic (asc ''Date of Birth'') = asc ''date of birth''"
  "toLowerCaseBasic (asc ''Status'') = asc ''status''"
  by (simp_all add: toLowerCaseBasic_def asc_def)

lemma HEADER_MAPPINGS_cased_keys:
  "map_of HEADER_MAPPINGS (asc ''ID'') = Some (asc ''external_id'')"
  "map_of HEADER_MAPPINGS (asc ''id'') = Some (asc ''external_id'')"
  "map_of HEADER_MAPPINGS (asc ''Id'') = Some (asc ''external_id'')"
  "map_of HEADER_MAPPINGS (asc ''Name'') = Some (asc ''name'')"
  "map_of HEADER_MAPPINGS (asc ''name'') = Some (asc ''name'')"
  "map_of HEADER_MAPPINGS (asc ''Full Name'') = Some (asc ''name'')"
  "map_of HEADER_MAPPINGS (asc ''full name'') = Some (asc ''name'')"
  "map_of HEADER_MAPPINGS (asc ''FullName'') = Some (asc ''name'')"
  "map_of HEADER_MAPPINGS (asc ''fullname'') = Some (asc ''name'')"
  "map_of HEADER_MAPPINGS (asc ''First Name'') = Some (asc ''first_name'')"
  "map_of HEADER_MAPPINGS (asc ''first name'') = Some (asc ''first_name'')"
  "map_of HEADER_MAPPINGS (asc ''FirstName'') = Some (asc ''first_name'')"
  "map_of HEADER_MAPPINGS (asc ''firstname'') = Some (asc ''first_name'')"
  "map_of HEADER_MAPPINGS (asc ''Last Name'') = Some (asc ''last_name'')"
  "map_of HEADER_MAPPINGS (asc ''last name'') = Some (asc ''last_name'')"
  "map_of HEADER_MAPPINGS (asc ''LastName'') = Some (asc ''last_name'')"
  "map_of HEADER_MAPPINGS (asc ''lastname'') = Some (asc ''last_name'')"
  "map_of HEADER_MAPPINGS (asc ''Email'') = Some (asc ''email'')"
  "map_of HEADER_MAPPINGS (asc ''email'') = Some (asc ''email'')"
  "map_of HEADER_MAPPINGS (asc ''Email Address'') = Some (asc ''email'')"
  "map_of HEADER_MAPPINGS (asc ''email address'') = Some (asc ''email'')"
  "map_of HEADER_MAPPINGS (asc ''Phone'') = Some (asc ''phone'')"
  "map_of HEADER_MAPPINGS (asc ''phone'') = Some (asc ''phone'')"
  "map_of HEADER_MAPPINGS (asc ''Phone Number'') = Some (asc ''phone'')"
  "map_of HEADER_MAPPINGS (asc ''phone number'') = Some (asc ''phone'')"
  "map_of HEADER_MAPPINGS (asc ''Address'') = Some (asc ''address'')"
  "map_of HEADER_MAPPINGS (asc ''address'') = Some (asc ''address'')"
  "map_of HEADER_MAPPINGS (asc ''City'') = Some (asc ''city'')"
  "map_of HEADER_MAPPINGS (asc ''city'') = Some (asc ''city'')"
  "map_of HEADER_MAPPINGS (asc ''State'') = Some (asc ''state'')"
  "map_of HEADER_MAPPINGS (asc ''state'') = Some (asc ''state'')"
  "map_of HEADER_MAPPINGS (asc ''Zip'') = Some (asc ''zip'')"
  "map_of HEADER_MAPPINGS (asc ''zip'') = Some (asc ''zip'')"
  "map_of HEADER_MAPPINGS (asc ''Zip Code'') = Some (asc ''zip'')"
  "map_of HEADER_MAPPINGS (asc ''zip code'') = Some (asc ''zip'')"
  "map_of HEADER_MAPPINGS (asc ''Postal Code'') = Some (asc ''zip'')"
  "map_of HEADER_MAPPINGS (asc ''postal code'') = Some (asc ''zip'')"
  "map_of HEADER_MAPPINGS (asc ''Country'') = Some (asc ''country'')"
  "map_of HEADER_MAPPINGS (asc ''country'') = Some (asc ''country'')"
  "map_of HEADER_MAPPINGS (asc ''Company'') = Some (asc ''company'')"
  "map_of HEADER_MAPPINGS (asc ''company'') = Some (asc ''company'')"
  "map_of HEADER_MAPPINGS (asc ''Job Title'') = Some (asc ''job_title'')"
  "map_of HEADER_MAPPINGS (asc ''job title'') = Some (asc ''job_title'')"
  "map_of HEADER_MAPPINGS (asc ''Department'') = Some (asc ''department'')"
  "map_of HEADER_MAPPINGS (asc ''department'') = Some (asc ''department'')"
  "map_of HEADER_MAPPINGS (asc ''Birth Date'') = Some (asc ''birth_date'')"
  "map_of HEADER_MAPPINGS (asc ''birth date'') = Some (asc ''birth_date'')"
  "map_of HEADER_MAPPINGS (asc ''Date of Birth'') = Some (asc ''birth_date'')"
  "map_of HEADER_MAPPINGS (asc ''date of birth'') = Some (asc ''birth_date'')"
  "map_of HEADER_MAPPINGS (asc ''Status'') = Some (asc ''status'')"
  "map_of HEADER_MAPPINGS (asc ''status'') = Some (asc ''status'')"
  unfolding HEADER_MAPPINGS_def
  by (simp_all only: lookup_simps cong: map_of_key_cong)

lemma mapHeader_key: "map_of HEADER_MAPPINGS h = Some c \<Longrightarrow> mapHeader lc h = MStr c"
  using mapHeader_lookup_order [of h c lc] by simp

lemma mapHeader_cased_keys:
  "mapHeader toLowerCaseBasic (toLowerCaseBasic (asc ''ID'')) = mapHeader toLowerCaseBasic (asc ''ID'')"
  "mapHeader toLowerCaseBasic (toLowerCaseBasic (asc ''Id'')) = mapHeader toLowerCaseBasic (asc ''Id'')"
  "mapHeader toLowerCaseBasic (toLowerCaseBasic (asc ''Name'')) = mapHeader toLowerCaseBasic (asc ''Name'')"
  "mapHeader toLowerCaseBasic (toLowerCaseBasic (asc ''Full Name'')) = mapHeader toLowerCaseBasic (asc ''Full Name'')"
  "mapHeader toLowerCaseBasic (toLowerCaseBasic (asc ''FullName'')) = mapHeader toLowerCaseBasic (asc ''FullName'')"
  "mapHeader toLowerCaseBasic (toLowerCaseBasic (asc ''First Name'')) = mapHeader toLowerCaseBasic (asc ''First Name'')"
  "mapHeader toLowerCaseBasic (toLowerCaseBasic (asc ''FirstName'')) = mapHeader toLowerCaseBasic (asc ''FirstName'')"
  "mapHeader toLowerCaseBasic (toLowerCaseBasic (asc ''Last Name'')) = mapHeader toLowerCaseBasic (asc ''Last Name'')"
  "mapHeader toLowerCaseBasic (toLowerCaseBasic (asc ''LastName'')) = mapHeader toLowerCaseBasic (asc ''LastName'')"
  "mapHeader toLowerCaseBasic (toLowerCaseBasic (asc ''Email'')) = mapHeader toLowerCaseBasic (asc ''Email'')"
  "mapHeader toLowerCaseBasic (toLowerCaseBasic (asc ''Email Address'')) = mapHeader toLowerCaseBasic (asc ''Email Address'')"
  "mapHeader toLowerCaseBasic (toLowerCaseBasic (asc ''Phone'')) = mapHeader toLowerCaseBasic (asc ''Phone'')"
  "mapHeader toLowerCaseBasic (toLowerCaseBasic (asc ''Phone Number'')) = mapHeader toLowerCaseBasic (asc ''Phone Number'')"
  "mapHeader toLowerCaseBasic (toLowerCaseBasic (asc ''Address'')) = mapHeader toLowerCaseBasic (asc ''Address'')"
  "mapHeader toLowerCaseBasic (toLowerCaseBasic (asc ''City'')) = mapHeader toLowerCaseBasic (asc ''City'')"
  "mapHeader toLowerCaseBasic (toLowerCaseBasic (asc ''State'')) = mapHeader toLowerCaseBasic (asc ''State'')"
  "mapHeader toLowerCaseBasic (toLowerCaseBasic (asc ''Zip'')) = mapHeader toLowerCaseBasic (asc ''Zip'')"
  "mapHeader toLowerCaseBasic (toLowerCaseBasic (asc ''Zip Code'')) = mapHeader toLowerCaseBasic (asc ''Zip Code'')"
  "mapHeader toLowerCaseBasic (toLowerCaseBasic (asc ''Postal Code'')) = mapHeader toLowerCaseBasic (asc ''Postal Code'')"
  "mapHeader toLowerCaseBasic (toLowerCaseBasic (asc ''Country'')) = mapHeader toLowerCaseBasic (asc ''Country'')"
  "mapHeader toLowerCaseBasic (toLowerCaseBasic (asc ''Company'')) = mapHeader toLowerCaseBasic (asc ''Company'')"
  "mapHeader toLowerCaseBasic (toLowerCaseBasic (asc ''Job Title'')) = mapHeader toLowerCaseBasic (asc ''Job Title'')"
  "mapHeader toLowerCaseBasic (toLowerCaseBasic (asc ''Department'')) = mapHeader toLowerCaseBasic (asc ''Department'')"
  "mapHeader toLowerCaseBasic (toLowerCaseBasic (asc ''Birth Date'')) = mapHeader toLowerCaseBasic (asc ''Birth Date'')"
  "mapHeader toLowerCaseBasic (toLowerCaseBasic (asc ''Date of Birth'')) = mapHeader toLowerCaseBasic (asc ''Date of Birth'')"
  "mapHeader toLowerCaseBasic (toLowerCaseBasic (asc ''Status'')) = mapHeader toLowerCaseBasic (asc ''Status'')"
  by (simp_all only: toLowerCaseBasic_cased_keys HEADER_MAPPINGS_cased_keys [THEN mapHeader_key])

lemma HEADER_MAPPINGS_birthdate:
  "map_of HEADER_MAPPINGS (asc ''BirthDate'') = Some (asc ''birth_date'')"
  "map_of HEADER_MAPPINGS (asc ''birthdate'') = None"
  unfolding HEADER_MAPPINGS_def
  by (simp_all only: lookup_simps cong: map_of_key_cong) simp_all

lemma birthdate_samples:
  "toLowerCaseBasic (asc ''BirthDate'') = asc ''birthdate''"
  "toLowerCaseBasic (asc ''birthdate'') = asc ''birthdate''"
  "replaceWs (asc ''birthdate'') = asc ''birthdate''"
  "asc ''birthdate'' \<notin> set objectPrototypeNames"
  by (simp_all add: toLowerCaseBasic_def asc_def isWhiteSpace_def objectPrototypeNames_def)

text \<open>
  Claim C2. The claim asks that the all-lowercase variant of a mapped header gets the
  canonical name of that header. \<open>DOB\<close> and \<open>BirthDate\<close> are keys of the table with
  the canonical name \<open>birth_date\<close>; their all-lowercase variants are \<open>dob\<close> and
  \<open>birthdate\<close>, which \<open>mapHeader\<close> returns as they are: the lookup lowercases the
  header, never the keys, and the table has no row for these two forms.
\<close>

theorem mapHeader_lowercase_variant_dob:
  "mapHeader toLowerCaseBasic (asc ''DOB'') = MStr (asc ''birth_date'') \<and>
   toLowerCaseBasic (asc ''DOB'') = asc ''dob'' \<and>
   mapHeader toLowerCaseBasic (asc ''dob'') = MStr (asc ''dob'') \<and>
   mapHeader toLowerCaseBasic (asc ''BirthDate'') = MStr (asc ''birth_date'') \<and>
   toLowerCaseBasic (asc ''BirthDate'') = asc ''birthdate'' \<and>
   mapHeader toLowerCaseBasic (asc ''birthdate'') = MStr (asc ''birthdate'')"
  by (simp add: mapHeader_def Let_def getMember_def HEADER_MAPPINGS_lookups toLowerCaseBasic_samples
        replaceWs_samples not_inherited_samples HEADER_MAPPINGS_birthdate birthdate_samples)

text \<open>A header that names a member of \<open>Object.prototype\<close> is mapped to that member.\<close>

lemma mapHeader_constructor: "mapHeader lc (asc ''constructor'') = MInherited (asc ''constructor'')"
  by (simp add: mapHeader_def getMember_def HEADER_MAPPINGS_lookups objectPrototypeNames_def)

section \<open>Failures of the record shaper\<close>

lemma cellToString_ok: "c \<noteq> Null \<Longrightarrow> \<exists>s. cellToString c = Inr s"
  by (cases c) simp_all

lemma fillPerson_ok: "Null \<notin> set r \<Longrightarrow> \<exists>p. fillPerson hs i r person = Inr p"
proof (induction hs arbitrary: i person)
  case Nil
  then show ?case by simp
next
  case (Cons h hs)
  show ?case
  proof (cases "i < length r \<and> member_truthy h")
    case True
    then have "r ! i \<noteq> Null" using Cons.prems by (metis nth_mem)
    then obtain s where "cellToString (r ! i) = Inr s" using cellToString_ok by blast
    then show ?thesis using True Cons.IH [OF Cons.prems] by simp
  next
    case False
    then show ?thesis using Cons.IH [OF Cons.prems] by auto
  qed
qed

lemma shapeRow_ok: "Null \<notin> set r \<Longrightarrow> \<exists>p. shapeRow hs a b c r = Inr p"
proof -
  assume nn: "Null \<notin> set r"
  obtain p0 where p0: "fillPerson hs 0 r [] = Inr p0" using fillPerson_ok [OF nn] by blast
  have cell: "\<And>i. i < length r \<Longrightarrow> \<exists>s. cellToString (r ! i) = Inr s"
    using nn cellToString_ok by (metis nth_mem)
  show ?thesis
    unfolding shapeRow_def p0 using cell
    by (fastforce simp: Let_def split: option.splits sum.splits)
qed

lemma mapE_ok: "(\<And>x. x \<in> set xs \<Longrightarrow> \<exists>y. f x = Inr y) \<Longrightarrow> \<exists>ys. mapE f xs = Inr ys"
proof (induction xs)
  case Nil
  then show ?case by simp
next
  case (Cons x xs)
  then obtain y where "f x = Inr y" by (meson list.set_intros(1))
  moreover obtain ys where "mapE f xs = Inr ys" using Cons by (meson list.set_intros(2))
  ultimately show ?case by simp
qed

text \<open>
  When no cell of a data row is \<open>null\<close>, the parse fails exactly when there are fewer
  than two rows or no identifying column, and fails with the matching error.
\<close>

lemma shape_fails_iff:
  assumes "\<And>r. r \<in> set (drop 1 rawData) \<Longrightarrow> Null \<notin> set r"
  shows "shape lc rawData = Inl e \<longleftrightarrow>
           (length rawData < 2 \<and> e = NotEnoughData)
         \<or> (length rawData \<ge> 2 \<and> \<not> identifiable (map (mapHeader lc) (map headerText (rawData ! 0)))
               \<and> e = NotEnoughInformation)"
proof (cases "length rawData < 2")
  case True
  then show ?thesis by (auto simp: shape_def)
next
  case False
  let ?hs = "map (mapHeader lc) (map headerText (rawData ! 0))"
  show ?thesis
  proof (cases "identifiable ?hs")
    case True
    have "\<exists>ys. mapE (shapeRow hs a b c) (filter nonBlank (drop 1 rawData)) = Inr ys" for hs a b c
      by (rule mapE_ok) (use assms shapeRow_ok in auto)
    then have "mapE (shapeRow hs a b c) (filter nonBlank (drop 1 rawData)) \<noteq> Inl e" for hs a b c
      by (metis Inl_Inr_False)
    then have "shape lc rawData \<noteq> Inl e"
      using True \<open>\<not> length rawData < 2\<close> unfolding shape_def identifiable_def Let_def
      by (simp split: if_splits) blast
    then show ?thesis using True \<open>\<not> length rawData < 2\<close> by simp
  next
    case nid: False
    then have "shape lc rawData = Inl NotEnoughInformation"
      using \<open>\<not> length rawData < 2\<close> unfolding shape_def identifiable_def Let_def by auto
    then show ?thesis using nid \<open>\<not> length rawData < 2\<close> by auto
  qed
qed

text \<open>
  Claim C7. Too few rows and no identifying column are not the only failures of the
  parse: the row filter lets a row with a \<open>null\<close> cell pass when another cell is filled,
  and the conversion of the row then reads \<open>toString\<close> from \<open>null\<close>. Here the sheet has
  the headers \<open>matricule, nom\<close> and the data row \<open>null, Girard\<close>.
\<close>

theorem shape_null_cell:
  "shape lc [[Str (asc ''matricule''), Str (asc ''nom'')], [Null, Str (asc ''Girard'')]]
     = Inl NullToString"
  by (simp add: shape_def Let_def headerText_sample mapHeader_sample nonBlank_def shapeRow_def)

text \<open>A sheet with a header row and no data row is refused.\<close>

lemma shape_header_only: "shape lc [headers] = Inl NotEnoughData"
  by (simp add: shape_def)

section \<open>The field normalizer\<close>

subsection \<open>Reading and writing properties\<close>

lemma get_update: "get (AList.update k v ob) k' = (if k' = k then v else get ob k')"
  by (simp add: get_def update_conv')

lemma keys_update: "fst ` set (AList.update k v ob) = insert k (fst ` set ob)"
  by (simp add: dom_update)

lemma keys_delete: "fst ` set (AList.delete k ob) = fst ` set ob - {k}"
  by (induction ob) auto

subsection \<open>The table of aliases\<close>

lemma fieldMappings_values:
  "map_of fieldMappings k = Some v \<Longrightarrow> v \<in> set canonicalNames"
proof -
  have "list_all (\<lambda>kv. snd kv \<in> set canonicalNames) fieldMappings"
    unfolding fieldMappings_def canonicalNames_def
    by (simp only: list_all_Nil_iff list_all_Cons_iff snd_conv list.set insert_iff
          asc_eq_iff simp_thms)
  then have "\<forall>kv \<in> set fieldMappings. snd kv \<in> set canonicalNames"
    by (simp only: list_all_iff)
  moreover assume "map_of fieldMappings k = Some v"
  then have "(k, v) \<in> set fieldMappings" by (rule map_of_SomeD)
  ultimately show ?thesis by force
qed

lemma fieldMappings_canonical:
  "map_of fieldMappings (asc ''external_id'') = None"
  "map_of fieldMappings (asc ''name'') = None"
  "map_of fieldMappings (asc ''first_name'') = None"
  "map_of fieldMappings (asc ''last_name'') = None"
  "map_of fieldMappings (asc ''birth_date'') = None"
  "map_of fieldMappings (asc ''status'') = None"
  unfolding fieldMappings_def
  by (simp_all only: lookup_simps cong: map_of_key_cong)

lemma canonical_not_inherited: "v \<in> set canonicalNames \<Longrightarrow> v \<notin> set objectPrototypeNames"
  by (auto simp: canonicalNames_def objectPrototypeNames_def)

lemma canonical_not_alias: "v \<in> set canonicalNames \<Longrightarrow> \<not> isAlias v"
  unfolding isAlias_def
  by (frule canonical_not_inherited)
     (auto simp: canonicalNames_def getMember_def fieldMappings_canonical)

lemma protoToString_samples:
  "protoToString (asc ''constructor'') = asc ''function Object() { [native code] }''"
  "protoToString (asc ''__defineGetter__'') = asc ''function __defineGetter__() { [native code] }''"
  "protoToString (asc ''__defineSetter__'') = asc ''function __defineSetter__() { [native code] }''"
  "protoToString (asc ''hasOwnProperty'') = asc ''function hasOwnProperty() { [native code] }''"
  "protoToString (asc ''__lookupGetter__'') = asc ''function __lookupGetter__() { [native code] }''"
  "protoToString (asc ''__lookupSetter__'') = asc ''function __lookupSetter__() { [native code] }''"
  "protoToString (asc ''isPrototypeOf'') = asc ''function isPrototypeOf() { [native code] }''"
  "protoToString (asc ''propertyIsEnumerable'') = asc ''function propertyIsEnumerable() { [native code] }''"
  "protoToString (asc ''toString'') = asc ''function toString() { [native code] }''"
  "protoToString (asc ''valueOf'') = asc ''function valueOf() { [native code] }''"
  "protoToString (asc ''__proto__'') = asc ''[object Object]''"
  "protoToString (asc ''toLocaleString'') = asc ''function toLocaleString() { [native code] }''"
  by (simp_all add: protoToString_def) (simp_all add: asc_def)

lemma fieldMappings_protoToString:
  "map_of fieldMappings (asc ''function Object() { [native code] }'') = None"
  "map_of fieldMappings (asc ''function __defineGetter__() { [native code] }'') = None"
  "map_of fieldMappings (asc ''function __defineSetter__() { [native code] }'') = None"
  "map_of fieldMappings (asc ''function hasOwnProperty() { [native code] }'') = None"
  "map_of fieldMappings (asc ''function __lookupGetter__() { [native code] }'') = None"
  "map_of fieldMappings (asc ''function __lookupSetter__() { [native code] }'') = None"
  "map_of fieldMappings (asc ''function isPrototypeOf() { [native code] }'') = None"
  "map_of fieldMappings (asc ''function propertyIsEnumerable() { [native code] }'') = None"
  "map_of fieldMappings (asc ''function toString() { [native code] }'') = None"
  "map_of fieldMappings (asc ''function valueOf() { [native code] }'') = None"
  "map_of fieldMappings (asc ''[object Object]'') = None"
  "map_of fieldMappings (asc ''function toLocaleString() { [native code] }'') = None"
  unfolding fieldMappings_def
  by (simp_all only: lookup_simps cong: map_of_key_cong)

lemma protoToString_not_alias: "p \<in> set objectPrototypeNames \<Longrightarrow> \<not> isAlias (protoToString p)"
  unfolding isAlias_def getMember_def
  by (auto simp: objectPrototypeNames_def protoToString_samples fieldMappings_protoToString)

lemma alias_target_not_alias:
  "isAlias k \<Longrightarrow> \<not> isAlias (propertyKey (getMember fieldMappings k))"
  by (auto simp: getMember_def canonical_not_alias protoToString_not_alias
      dest: fieldMappings_values split: option.splits if_splits)
     (simp add: isAlias_def getMember_def)

lemma alias_not_identity: "isAlias k \<Longrightarrow> getMember fieldMappings k \<noteq> MStr k"
proof
  assume a: "isAlias k" and "getMember fieldMappings k = MStr k"
  then have "map_of fieldMappings k = Some k"
    by (auto simp: getMember_def split: option.splits if_splits)
  then have "k \<in> set canonicalNames" by (rule fieldMappings_values)
  then show False using a canonical_not_alias by blast
qed

subsection \<open>Renaming the aliases\<close>

lemma applyMapping_not_alias: "\<not> isAlias (fst e) \<Longrightarrow> applyMapping e n = n"
  by (cases e) (simp add: applyMapping_def isAlias_def)

lemma keys_applyMapping:
  "isAlias k \<Longrightarrow>
     fst ` set (applyMapping (k, v) n)
       = insert (propertyKey (getMember fieldMappings k)) (fst ` set n) - {k}"
  using alias_not_identity [of k] alias_target_not_alias [of k]
  by (auto simp: applyMapping_def isAlias_def Let_def keys_update keys_delete)

lemma fold_applyMapping_keys:
  "k \<in> fst ` set (fold applyMapping es n) \<Longrightarrow> isAlias k
     \<Longrightarrow> k \<in> fst ` set n \<and> k \<notin> fst ` set es"
proof (induction es arbitrary: n)
  case Nil
  then show ?case by simp
next
  case (Cons e es)
  obtain key v where e: "e = (key, v)" by (cases e)
  from Cons have ih: "k \<in> fst ` set (applyMapping e n)" "k \<notin> fst ` set es"
    by auto
  show ?case
  proof (cases "isAlias key")
    case True
    then have "k \<in> insert (propertyKey (getMember fieldMappings key)) (fst ` set n) - {key}"
      using ih(1) e keys_applyMapping by blast
    moreover have "k \<noteq> propertyKey (getMember fieldMappings key)"
      using alias_target_not_alias [OF True] Cons.prems(2) by auto
    ultimately show ?thesis using ih(2) e by auto
  next
    case False
    then have "applyMapping e n = n" using e by (simp add: applyMapping_not_alias)
    then show ?thesis using ih e False Cons.prems(2) by auto
  qed
qed

lemma applyMappings_no_alias: "k \<in> fst ` set (applyMappings person) \<Longrightarrow> \<not> isAlias k"
  unfolding applyMappings_def using fold_applyMapping_keys by blast

lemma fold_applyMapping_id:
  "(\<And>k. k \<in> fst ` set es \<Longrightarrow> \<not> isAlias k) \<Longrightarrow> fold applyMapping es n = n"
  by (induction es arbitrary: n) (simp_all add: applyMapping_not_alias)

lemma applyMappings_id:
  "(\<And>k. k \<in> fst ` set person \<Longrightarrow> \<not> isAlias k) \<Longrightarrow> applyMappings person = person"
  unfolding applyMappings_def by (rule fold_applyMapping_id)

subsection \<open>Splitting a trimmed name\<close>

lemma splitWs_nonempty:
  "cur \<noteq> [] \<or> (t \<noteq> [] \<and> \<not> isWhiteSpace (hd t)) \<Longrightarrow> t = [] \<or> \<not> isWhiteSpace (last t)
     \<Longrightarrow> p \<in> set (splitWs cur t) \<Longrightarrow> p \<noteq> []"
proof (induction cur t rule: splitWs.induct)
  case (1 cur)
  then show ?case by simp
next
  case (2 cur c cs)
  show ?case
  proof (cases "isWhiteSpace c")
    case True
    then have cur: "cur \<noteq> []" using "2.prems"(1) by simp
    have cs: "cs \<noteq> []" "\<not> isWhiteSpace (last cs)"
      using "2.prems"(2) True by (auto split: if_splits)
    let ?t = "dropWhile isWhiteSpace cs"
    have t: "?t \<noteq> []" using cs by (metis dropWhile_eq_Nil_conv last_in_set)
    have "\<not> isWhiteSpace (hd ?t)" using t hd_dropWhile by blast
    moreover have "last ?t = last cs" using t by (metis last_appendR takeWhile_dropWhile_id)
    ultimately have "p \<in> set (splitWs [] ?t) \<Longrightarrow> p \<noteq> []"
      using "2.IH"(1) [OF True] t cs by simp
    then show ?thesis using "2.prems"(3) True cur by auto
  next
    case False
    have "cs = [] \<or> \<not> isWhiteSpace (last cs)" using "2.prems"(2) by (auto split: if_splits)
    then show ?thesis using "2.IH"(2) [OF False] "2.prems"(3) False by simp
  qed
qed

lemma trim_ends:
  "trim s = [] \<or> (\<not> isWhiteSpace (hd (trim s)) \<and> \<not> isWhiteSpace (last (trim s)))"
proof (cases "trim s = []")
  case True
  then show ?thesis by simp
next
  case False
  let ?u = "dropWhile isWhiteSpace s"
  let ?w = "dropWhile isWhiteSpace (rev ?u)"
  have w: "?w \<noteq> []" using False by (simp add: trim_def)
  have "last (trim s) = hd ?w" by (simp add: trim_def w last_rev)
  then have l: "\<not> isWhiteSpace (last (trim s))" using w hd_dropWhile by metis
  have u: "?u \<noteq> []"
  proof
    assume "?u = []"
    then have "?w = []" by (simp only: rev.simps dropWhile.simps)
    then show False using w by contradiction
  qed
  have "hd (trim s) = last ?w" by (simp add: trim_def w hd_rev)
  also have "\<dots> = last (rev ?u)" using w by (metis last_appendR takeWhile_dropWhile_id)
  also have "\<dots> = hd ?u" using u by (simp add: last_rev)
  finally have "\<not> isWhiteSpace (hd (trim s))" using u hd_dropWhile by metis
  then show ?thesis using l by simp
qed

lemma split_Nil: "split [] = [[]]"
  by (simp add: split_def)

lemma split_trim_parts:
  assumes "length (split (trim s)) \<ge> 2" and "p \<in> set (split (trim s))"
  shows "p \<noteq> []"
proof -
  have ne: "trim s \<noteq> []" using assms(1) by (auto simp: split_Nil)
  then have "\<not> isWhiteSpace (hd (trim s))" "\<not> isWhiteSpace (last (trim s))"
    using trim_ends [of s] by auto
  then show ?thesis using splitWs_nonempty [of "[]" "trim s" p] ne assms(2)
    by (simp add: split_def)
qed

lemma join_nonempty: "ps \<noteq> [] \<Longrightarrow> (\<And>p. p \<in> set ps \<Longrightarrow> p \<noteq> []) \<Longrightarrow> join ps \<noteq> []"
  by (induction ps rule: join.induct) auto

lemma split_trim_hd_tl:
  assumes "length (split (trim s)) \<ge> 2"
  shows "hd (split (trim s)) \<noteq> []" and "join (tl (split (trim s))) \<noteq> []"
proof -
  obtain a b cs where sp: "split (trim s) = a # b # cs"
    using assms by (cases "split (trim s)"; cases "tl (split (trim s))") auto
  show "hd (split (trim s)) \<noteq> []" using split_trim_parts [OF assms, of a] sp by simp
  have "\<And>p. p \<in> set (b # cs) \<Longrightarrow> p \<noteq> []" using split_trim_parts [OF assms] sp by simp
  then show "join (tl (split (trim s))) \<noteq> []" using sp join_nonempty [of "b # cs"] by simp
qed

subsection \<open>The two special cases\<close>

lemma field_names_distinct [simp]:
  "asc ''name'' \<noteq> asc ''first_name''" "asc ''name'' \<noteq> asc ''last_name''"
  "asc ''first_name'' \<noteq> asc ''last_name''" "asc ''first_name'' \<noteq> asc ''name''"
  "asc ''last_name'' \<noteq> asc ''name''" "asc ''last_name'' \<noteq> asc ''first_name''"
  by simp_all

lemma splitName_unchanged:
  "\<not> (truthy (get n (asc ''name''))
        \<and> (\<not> truthy (get n (asc ''first_name'')) \<or> \<not> truthy (get n (asc ''last_name''))))
     \<Longrightarrow> splitName n = Inr n"
  by (auto simp: splitName_def)

lemma splitName_single_token:
  "get n (asc ''name'') = Str s \<Longrightarrow> length (split (trim s)) < 2 \<Longrightarrow> splitName n = Inr n"
  by (simp add: splitName_def Let_def)

lemma splitName_tokens:
  assumes "get n (asc ''name'') = Str s" and "s \<noteq> []" and "length (split (trim s)) \<ge> 2"
    and "\<not> truthy (get n (asc ''first_name'')) \<or> \<not> truthy (get n (asc ''last_name''))"
  shows "\<exists>n'. splitName n = Inr n'
           \<and> get n' (asc ''name'') = Str s
           \<and> get n' (asc ''last_name'')
               = (if truthy (get n (asc ''last_name'')) then get n (asc ''last_name'')
                  else Str (hd (split (trim s))))
           \<and> get n' (asc ''first_name'')
               = (if truthy (get n (asc ''first_name'')) then get n (asc ''first_name'')
                  else Str (join (tl (split (trim s)))))
           \<and> (\<forall>k. k \<noteq> asc ''first_name'' \<longrightarrow> k \<noteq> asc ''last_name'' \<longrightarrow> get n' k = get n k)
           \<and> fst ` set n' \<subseteq> insert (asc ''first_name'') (insert (asc ''last_name'') (fst ` set n))"
  using assms by (auto simp: splitName_def Let_def get_update keys_update)

lemma splitName_result:
  assumes "splitName n = Inr n'"
  shows "n' = n
       \<or> (truthy (get n' (asc ''name'')) \<and> truthy (get n' (asc ''first_name''))
            \<and> truthy (get n' (asc ''last_name''))
            \<and> fst ` set n' \<subseteq> insert (asc ''first_name'') (insert (asc ''last_name'') (fst ` set n)))"
proof (cases "truthy (get n (asc ''name''))
        \<and> (\<not> truthy (get n (asc ''first_name'')) \<or> \<not> truthy (get n (asc ''last_name'')))")
  case False
  then show ?thesis using assms splitName_unchanged [OF False] by simp
next
  case True
  then obtain s where s: "get n (asc ''name'') = Str s" "s \<noteq> []"
    using assms by (cases "get n (asc ''name'')") (auto simp: splitName_def)
  show ?thesis
  proof (cases "length (split (trim s)) \<ge> 2")
    case False
    then show ?thesis using assms splitName_single_token [OF s(1)] by simp
  next
    case len: True
    from splitName_tokens [OF s len] True assms split_trim_hd_tl [OF len] s(2)
    show ?thesis by auto
  qed
qed

lemma combineName_keys:
  "fst ` set (combineName n) \<subseteq> insert (asc ''name'') (fst ` set n)"
  by (auto simp: combineName_def keys_update)

lemma combineName_settled:
  "splitName (combineName n) = Inr (combineName n) \<and> combineName (combineName n) = combineName n"
  if "splitName n = Inr n"
proof (cases "\<not> truthy (get n (asc ''name'')) \<and> truthy (get n (asc ''first_name''))
                \<and> truthy (get n (asc ''last_name''))")
  case True
  then show ?thesis
    by (simp add: combineName_def splitName_def get_update)
next
  case False
  then have "combineName n = n" by (auto simp: combineName_def)
  then show ?thesis using that by simp
qed

lemma normalizePersonFields_fixed:
  assumes "normalizePersonFields person = Inr q"
  shows "normalizePersonFields q = Inr q"
proof -
  let ?n = "applyMappings person"
  from assms obtain n' where n': "splitName ?n = Inr n'" and q: "q = combineName n'"
    by (auto simp: normalizePersonFields_def split: sum.splits)
  have settled: "splitName q = Inr q \<and> combineName q = q"
  proof -
    from splitName_result [OF n'] consider
      (same) "n' = ?n"
      | (filled) "truthy (get n' (asc ''name''))" "truthy (get n' (asc ''first_name''))"
          "truthy (get n' (asc ''last_name''))"
      by blast
    then show ?thesis
    proof cases
      case same
      then show ?thesis using n' q combineName_settled by simp
    next
      case filled
      then have "combineName n' = n'" by (simp add: combineName_def)
      moreover have "splitName n' = Inr n'" using filled by (simp add: splitName_def)
      ultimately show ?thesis using q by simp
    qed
  qed
  have keys: "fst ` set q \<subseteq> {asc ''name'', asc ''first_name'', asc ''last_name''} \<union> fst ` set ?n"
    using splitName_result [OF n'] combineName_keys [of n'] q by auto
  have "\<not> isAlias k" if "k \<in> fst ` set q" for k
  proof -
    from that keys have "k \<in> set canonicalNames \<or> k \<in> fst ` set ?n"
      by (auto simp: canonicalNames_def)
    then show ?thesis using canonical_not_alias applyMappings_no_alias by blast
  qed
  then have "applyMappings q = q" by (rule applyMappings_id)
  then show ?thesis using settled by (simp add: normalizePersonFields_def)
qed

subsection \<open>What the normalizer keeps\<close>

lemma splitName_keeps:
  assumes "splitName n = Inr n'"
  shows "fst ` set n \<subseteq> fst ` set n'"
    and "truthy (get n k) \<Longrightarrow> get n' k = get n k"
    and "k \<noteq> asc ''first_name'' \<Longrightarrow> k \<noteq> asc ''last_name'' \<Longrightarrow> get n' k = get n k"
proof -
  show "fst ` set n \<subseteq> fst ` set n'"
    using assms
    by (auto simp: splitName_def Let_def keys_update split: if_splits jsval.splits)
       (force+)?
  show "truthy (get n k) \<Longrightarrow> get n' k = get n k"
    using assms
    by (auto simp: splitName_def Let_def get_update split: if_splits jsval.splits)
  show "k \<noteq> asc ''first_name'' \<Longrightarrow> k \<noteq> asc ''last_name'' \<Longrightarrow> get n' k = get n k"
    using assms
    by (auto simp: splitName_def Let_def get_update split: if_splits jsval.splits)
qed

lemma combineName_keeps:
  shows "fst ` set n \<subseteq> fst ` set (combineName n)"
    and "truthy (get n k) \<Longrightarrow> get (combineName n) k = get n k"
    and "k \<noteq> asc ''name'' \<Longrightarrow> get (combineName n) k = get n k"
  by (auto simp: combineName_def get_update keys_update)

lemma canonical_keys_keep:
  assumes "set (map fst person) \<subseteq> set canonicalNames"
    and "normalizePersonFields person = Inr q"
  shows "fst ` set person \<subseteq> fst ` set q"
    and "truthy (get person k) \<Longrightarrow> get q k = get person k"
    and "k \<noteq> asc ''name'' \<Longrightarrow> k \<noteq> asc ''first_name'' \<Longrightarrow> k \<noteq> asc ''last_name''
           \<Longrightarrow> get q k = get person k"
proof -
  have "applyMappings person = person"
    by (rule applyMappings_id) (use assms(1) canonical_not_alias in auto)
  with assms(2) obtain n' where n': "splitName person = Inr n'" and q: "q = combineName n'"
    by (auto simp: normalizePersonFields_def split: sum.splits)
  show "fst ` set person \<subseteq> fst ` set q"
    using splitName_keeps(1) [OF n'] combineName_keeps(1) [of n'] q by blast
  show "get q k = get person k" if "truthy (get person k)"
    using that splitName_keeps(2) [OF n', of k] combineName_keeps(2) [of n' k] q by simp
  show "get q k = get person k"
    if "k \<noteq> asc ''name''" "k \<noteq> asc ''first_name''" "k \<noteq> asc ''last_name''"
    using that splitName_keeps(3) [OF n', of k] combineName_keeps(3) [of k n'] q by simp
qed

subsection \<open>Sample records\<close>

lemma fieldMappings_samples:
  "map_of fieldMappings (asc ''Name'') = Some (asc ''name'')"
  "map_of fieldMappings (asc ''ID'') = Some (asc ''external_id'')"
  "map_of fieldMappings (asc ''Status'') = Some (asc ''status'')"
  unfolding fieldMappings_def
  by (simp_all only: lookup_simps cong: map_of_key_cong)

lemma isAlias_samples:
  "\<not> isAlias (asc ''name'')" "\<not> isAlias (asc ''first_name'')" "\<not> isAlias (asc ''last_name'')"
  "\<not> isAlias (asc ''status'')" "\<not> isAlias (asc ''external_id'')" "\<not> isAlias (asc ''birth_date'')"
  by (rule canonical_not_alias, simp add: canonicalNames_def)+

lemma applyMappings_Girard:
  "applyMappings [(asc ''first_name'', Str (asc ''David'')), (asc ''last_name'', Str (asc ''Girard''))]
     = [(asc ''first_name'', Str (asc ''David'')), (asc ''last_name'', Str (asc ''Girard''))]"
  by (rule applyMappings_id) (auto simp: isAlias_samples)

lemma applyMappings_Madonna:
  "applyMappings [(asc ''name'', Str (asc ''Madonna''))] = [(asc ''name'', Str (asc ''Madonna''))]"
  by (rule applyMappings_id) (auto simp: isAlias_samples)

lemma applyMappings_Doe:
  "applyMappings [(asc ''ID'', Str (asc ''12345'')), (asc ''Name'', Str (asc ''Doe John Paul''))]
     = [(asc ''external_id'', Str (asc ''12345'')), (asc ''name'', Str (asc ''Doe John Paul''))]"
  by (simp add: applyMappings_def applyMapping_def getMember_def fieldMappings_samples)

lemma split_samples:
  "split (trim (asc ''Doe John Paul'')) = [asc ''Doe'', asc ''John'', asc ''Paul'']"
  "split (trim (asc ''Madonna'')) = [asc ''Madonna'']"
  "split (trim (asc ''Girard David'')) = [asc ''Girard'', asc ''David'']"
  by (simp_all add: asc_def split_def trim_def isWhiteSpace_def)

lemma join_sample:
  "join [asc ''John'', asc ''Paul''] = asc ''John Paul''"
  "asc ''John'' @ 32 # asc ''Paul'' = asc ''John Paul''"
  by (simp_all add: asc_def)

lemma trim_sample: "trim (asc ''Girard'' @ asc '' '' @ asc ''David'') = asc ''Girard David''"
  by (simp add: asc_def trim_def isWhiteSpace_def)

text \<open>
  Claim C3, as amended. Let \<open>n\<close> be the record after the alias keys were renamed.
  If \<open>n\<close> has a first and a last name and no name, the result has the name
  \<open>last_name first_name\<close>, trimmed. If the name of \<open>n\<close> is a non-empty string of at
  least two tokens and the first or the last name is missing, a missing last name
  becomes the first token and a missing first name the other tokens joined by single
  spaces. If the name is a non-empty string of fewer than two tokens, nothing is derived:
  the result is \<open>n\<close>.
\<close>

theorem normalizePersonFields_names:
  "(let n = applyMappings person in
     (\<not> truthy (get n (asc ''name'')) \<and> truthy (get n (asc ''first_name''))
        \<and> truthy (get n (asc ''last_name'')) \<longrightarrow>
        (\<exists>q. normalizePersonFields person = Inr q
           \<and> get q (asc ''last_name'') = get n (asc ''last_name'')
           \<and> get q (asc ''first_name'') = get n (asc ''first_name'')
           \<and> get q (asc ''name'')
               = Str (trim (toStr (get n (asc ''last_name'')) @ asc '' ''
                              @ toStr (get n (asc ''first_name''))))))
   \<and> (get n (asc ''name'') = Str s \<and> s \<noteq> [] \<and> 2 \<le> length (split (trim s))
        \<and> (\<not> truthy (get n (asc ''first_name'')) \<or> \<not> truthy (get n (asc ''last_name''))) \<longrightarrow>
        (\<exists>q. normalizePersonFields person = Inr q
           \<and> get q (asc ''name'') = Str s
           \<and> get q (asc ''last_name'')
               = (if truthy (get n (asc ''last_name'')) then get n (asc ''last_name'')
                  else Str (hd (split (trim s))))
           \<and> get q (asc ''first_name'')
               = (if truthy (get n (asc ''first_name'')) then get n (asc ''first_name'')
                  else Str (join (tl (split (trim s)))))))
   \<and> (get n (asc ''name'') = Str s \<and> s \<noteq> [] \<and> length (split (trim s)) < 2 \<longrightarrow>
        normalizePersonFields person = Inr n))"
proof -
  let ?n = "applyMappings person"
  have one: "\<exists>q. normalizePersonFields person = Inr q
           \<and> get q (asc ''last_name'') = get ?n (asc ''last_name'')
           \<and> get q (asc ''first_name'') = get ?n (asc ''first_name'')
           \<and> get q (asc ''name'')
               = Str (trim (toStr (get ?n (asc ''last_name'')) @ asc '' ''
                              @ toStr (get ?n (asc ''first_name''))))"
    if "\<not> truthy (get ?n (asc ''name''))" "truthy (get ?n (asc ''first_name''))"
      "truthy (get ?n (asc ''last_name''))"
  proof -
    have "splitName ?n = Inr ?n" using that by (simp add: splitName_unchanged)
    then show ?thesis using that
      by (simp add: normalizePersonFields_def combineName_def get_update fullName_def asc_def)
  qed
  have two: "\<exists>q. normalizePersonFields person = Inr q
           \<and> get q (asc ''name'') = Str s
           \<and> get q (asc ''last_name'')
               = (if truthy (get ?n (asc ''last_name'')) then get ?n (asc ''last_name'')
                  else Str (hd (split (trim s))))
           \<and> get q (asc ''first_name'')
               = (if truthy (get ?n (asc ''first_name'')) then get ?n (asc ''first_name'')
                  else Str (join (tl (split (trim s)))))"
    if "get ?n (asc ''name'') = Str s" "s \<noteq> []" "2 \<le> length (split (trim s))"
      "\<not> truthy (get ?n (asc ''first_name'')) \<or> \<not> truthy (get ?n (asc ''last_name''))"
  proof -
    from splitName_tokens [OF that] obtain n' where n': "splitName ?n = Inr n'"
      "get n' (asc ''name'') = Str s"
      "get n' (asc ''last_name'')
               = (if truthy (get ?n (asc ''last_name'')) then get ?n (asc ''last_name'')
                  else Str (hd (split (trim s))))"
      "get n' (asc ''first_name'')
               = (if truthy (get ?n (asc ''first_name'')) then get ?n (asc ''first_name'')
                  else Str (join (tl (split (trim s)))))"
      by blast
    have "combineName n' = n'" using n'(2) that(2) by (simp add: combineName_def)
    then show ?thesis using n' by (simp add: normalizePersonFields_def)
  qed
  have three: "normalizePersonFields person = Inr ?n"
    if "get ?n (asc ''name'') = Str s" "s \<noteq> []" "length (split (trim s)) < 2"
  proof -
    have "splitName ?n = Inr ?n" using that by (simp add: splitName_single_token)
    moreover have "combineName ?n = ?n" using that by (simp add: combineName_def)
    ultimately show ?thesis by (simp add: normalizePersonFields_def)
  qed
  show ?thesis unfolding Let_def using one two three by blast
qed

text \<open>
  The three cases at the records \<open>{first_name: David, last_name: Girard}\<close>,
  \<open>{ID: 12345, Name: Doe John Paul}\<close> and \<open>{name: Madonna}\<close>.
\<close>

theorem normalizePersonFields_names_witness:
  "(\<exists>q. normalizePersonFields
           [(asc ''first_name'', Str (asc ''David'')), (asc ''last_name'', Str (asc ''Girard''))] = Inr q
        \<and> get q (asc ''name'') = Str (asc ''Girard David''))
   \<and> (\<exists>q. normalizePersonFields
           [(asc ''ID'', Str (asc ''12345'')), (asc ''Name'', Str (asc ''Doe John Paul''))] = Inr q
        \<and> get q (asc ''last_name'') = Str (asc ''Doe'')
        \<and> get q (asc ''first_name'') = Str (asc ''John Paul''))
   \<and> normalizePersonFields [(asc ''name'', Str (asc ''Madonna''))]
        = Inr [(asc ''name'', Str (asc ''Madonna''))]"
  using
    normalizePersonFields_names
      [of "[(asc ''first_name'', Str (asc ''David'')), (asc ''last_name'', Str (asc ''Girard''))]" "[]"]
    normalizePersonFields_names
      [of "[(asc ''ID'', Str (asc ''12345'')), (asc ''Name'', Str (asc ''Doe John Paul''))]"
          "asc ''Doe John Paul''"]
    normalizePersonFields_names [of "[(asc ''name'', Str (asc ''Madonna''))]" "asc ''Madonna''"]
  unfolding Let_def applyMappings_Girard applyMappings_Doe applyMappings_Madonna
  by (simp add: get_def split_samples join_sample trim_sample) blast

text \<open>
  Claim C3 as stated fails for a name of one token: the record \<open>{name: Madonna}\<close> has a
  name and no last name, the first token of the name is \<open>Madonna\<close>, and the result has
  no last name.
\<close>

theorem normalizePersonFields_single_token_counterexample:
  "hd (split (trim (asc ''Madonna''))) = asc ''Madonna''
   \<and> normalizePersonFields [(asc ''name'', Str (asc ''Madonna''))]
        = Inr [(asc ''name'', Str (asc ''Madonna''))]
   \<and> get [(asc ''name'', Str (asc ''Madonna''))] (asc ''last_name'') = Undefined"
  by (simp add: normalizePersonFields_def applyMappings_Madonna splitName_def combineName_def
        get_def split_samples)

text \<open>
  Claim C6, as amended. The field normalizer is idempotent: a result of it is returned
  unchanged when it is normalized again. A record whose keys are all canonical keeps all
  its keys, every property with a truthy value, and every property other than \<open>name\<close>,
  \<open>first_name\<close> and \<open>last_name\<close>; it is not left unchanged when one of these three can
  be derived.
\<close>

theorem normalizePersonFields_idempotent:
  "(normalizePersonFields person = Inr q \<longrightarrow> normalizePersonFields q = Inr q)
   \<and> (set (map fst person) \<subseteq> set canonicalNames \<and> normalizePersonFields person = Inr q \<longrightarrow>
        fst ` set person \<subseteq> fst ` set q
        \<and> (\<forall>k. truthy (get person k) \<longrightarrow> get q k = get person k)
        \<and> (\<forall>k. k \<noteq> asc ''name'' \<and> k \<noteq> asc ''first_name'' \<and> k \<noteq> asc ''last_name''
               \<longrightarrow> get q k = get person k))"
  using normalizePersonFields_fixed [of person q] canonical_keys_keep [of person q]
  by blast

lemma normalizePersonFields_Girard:
  "normalizePersonFields
     [(asc ''first_name'', Str (asc ''David'')), (asc ''last_name'', Str (asc ''Girard''))]
   = Inr [(asc ''first_name'', Str (asc ''David'')), (asc ''last_name'', Str (asc ''Girard'')),
          (asc ''name'', Str (asc ''Girard David''))]"
  by (simp add: normalizePersonFields_def applyMappings_Girard splitName_def combineName_def
        get_def fullName_Girard_David)

lemma normalizePersonFields_Doe:
  "normalizePersonFields
     [(asc ''ID'', Str (asc ''12345'')), (asc ''Name'', Str (asc ''Doe John Paul''))]
   = Inr [(asc ''external_id'', Str (asc ''12345'')), (asc ''name'', Str (asc ''Doe John Paul'')),
          (asc ''last_name'', Str (asc ''Doe'')), (asc ''first_name'', Str (asc ''John Paul''))]"
  by (simp add: normalizePersonFields_def applyMappings_Doe splitName_def combineName_def
        get_def split_samples join_sample Let_def)

text \<open>
  Idempotence at the result for \<open>{ID: 12345, Name: Doe John Paul}\<close>, and what is kept of
  the canonical record \<open>{first_name: David, last_name: Girard}\<close>.
\<close>

theorem normalizePersonFields_idempotent_witness:
  "normalizePersonFields
     [(asc ''external_id'', Str (asc ''12345'')), (asc ''name'', Str (asc ''Doe John Paul'')),
      (asc ''last_name'', Str (asc ''Doe'')), (asc ''first_name'', Str (asc ''John Paul''))]
   = Inr [(asc ''external_id'', Str (asc ''12345'')), (asc ''name'', Str (asc ''Doe John Paul'')),
          (asc ''last_name'', Str (asc ''Doe'')), (asc ''first_name'', Str (asc ''John Paul''))]
   \<and> get [(asc ''first_name'', Str (asc ''David'')), (asc ''last_name'', Str (asc ''Girard'')),
           (asc ''name'', Str (asc ''Girard David''))] (asc ''first_name'')
       = Str (asc ''David'')"
  using
    normalizePersonFields_idempotent
      [of "[(asc ''ID'', Str (asc ''12345'')), (asc ''Name'', Str (asc ''Doe John Paul''))]"
          "[(asc ''external_id'', Str (asc ''12345'')), (asc ''name'', Str (asc ''Doe John Paul'')),
            (asc ''last_name'', Str (asc ''Doe'')), (asc ''first_name'', Str (asc ''John Paul''))]"]
    normalizePersonFields_idempotent
      [of "[(asc ''first_name'', Str (asc ''David'')), (asc ''last_name'', Str (asc ''Girard''))]"
          "[(asc ''first_name'', Str (asc ''David'')), (asc ''last_name'', Str (asc ''Girard'')),
            (asc ''name'', Str (asc ''Girard David''))]"]
  by (simp add: normalizePersonFields_Doe normalizePersonFields_Girard canonicalNames_def get_def)

text \<open>
  Claim C6 as stated fails in its second part: all keys of
  \<open>{first_name: David, last_name: Girard}\<close> are canonical, and the normalizer adds
  \<open>name\<close> to it.
\<close>

theorem normalizePersonFields_canonical_counterexample:
  "set (map fst [(asc ''first_name'', Str (asc ''David'')), (asc ''last_name'', Str (asc ''Girard''))])
     \<subseteq> set canonicalNames
   \<and> normalizePersonFields
       [(asc ''first_name'', Str (asc ''David'')), (asc ''last_name'', Str (asc ''Girard''))]
     = Inr [(asc ''first_name'', Str (asc ''David'')), (asc ''last_name'', Str (asc ''Girard'')),
            (asc ''name'', Str (asc ''Girard David''))]"
  by (simp add: normalizePersonFields_def applyMappings_Girard splitName_def combineName_def
        get_def fullName_Girard_David canonicalNames_def)

section \<open>The adapters' save\<close>

lemma insertPerson_skip: "skip p \<Longrightarrow> insertPerson env c p acc = acc"
  by (cases acc) (simp add: insertPerson_def)

lemma fold_insertPerson:
  "fold (insertPerson env c) people (ins, errs, hist)
     = (ins + length (filter id (outcomes env c hist (map toRow (filter eligible people)))),
        errs + length (filter Not (outcomes env c hist (map toRow (filter eligible people)))),
        hist @ map (Insert c) (map toRow (filter eligible people)))"
proof (induction people arbitrary: ins errs hist)
  case Nil
  then show ?case by simp
next
  case (Cons p people)
  show ?case
  proof (cases "skip p")
    case True
    then show ?thesis using Cons.IH by (simp add: insertPerson_skip eligible_def)
  next
    case False
    then show ?thesis using Cons.IH by (simp add: insertPerson_def eligible_def)
  qed
qed

lemma batchLoop_fold:
  "batchLoop env c people i acc = fold (insertPerson env c) (drop i people) acc"
proof (induction env c people i acc rule: batchLoop.induct)
  case (1 env conn people i acc)
  show ?case
  proof (cases "i < length people")
    case True
    have "drop i people = take 100 (drop i people) @ drop (i + 100) people"
      by (metis add.commute append_take_drop_id drop_drop)
    then have "fold (insertPerson env conn) (drop i people) acc
        = fold (insertPerson env conn) (drop (i + 100) people)
            (fold (insertPerson env conn) (take 100 (drop i people)) acc)"
      by (metis fold_append comp_apply)
    then show ?thesis using True "1.IH" by (subst batchLoop.simps) simp
  next
    case False
    then show ?thesis by (subst batchLoop.simps) simp
  qed
qed

lemma outcomes_length: "length (outcomes env c hist rs) = length rs"
  by (induction rs arbitrary: hist) simp_all

lemma outcomes_count:
  "length (filter id (outcomes env c hist rs)) + length (filter Not (outcomes env c hist rs))
     = length rs"
  using sum_length_filter_compl [of id "outcomes env c hist rs"] by (simp add: outcomes_length)

lemma saveToDatabase_sqlite_eq:
  assumes "people \<noteq> []"
  shows "saveToDatabase_sqlite env c people hist =
    (let rows = map toRow (filter eligible people);
         oks = outcomes env c (hist @ [Begin c, Prepare c]) rows;
         hist1 = hist @ [Begin c, Prepare c] @ map (Insert c) rows
     in if \<not> begin_ok env hist c then None
        else if \<not> prepare_ok env (hist @ [Begin c]) c then None
        else if commit_ok env hist1 c
        then Some (Inr \<lparr> inserted = length (filter id oks),
                         errors = Count (length (filter Not oks)) \<rparr>,
                   hist1 @ [Commit c])
        else if rollback_ok env (hist1 @ [Commit c]) c
        then Some (Inl SaveFailed, hist1 @ [Commit c, Rollback c])
        else None)"
  using assms by (simp add: saveToDatabase_sqlite_def fold_insertPerson Let_def)

lemma saveBatched_eq:
  assumes "people \<noteq> []"
  shows "saveBatched env c people hist =
    (let rows = map toRow (filter eligible people);
         oks = outcomes env c (hist @ [Begin c]) rows;
         hist1 = hist @ [Begin c] @ map (Insert c) rows
     in if \<not> begin_ok env hist c then Some (Inl SaveFailed, hist @ [Begin c, Rollback c])
        else if commit_ok env hist1 c
        then Some (Inr \<lparr> inserted = length (filter id oks),
                         errors = Count (length (filter Not oks)) \<rparr>,
                   hist1 @ [Commit c])
        else Some (Inl SaveFailed, hist1 @ [Commit c, Rollback c]))"
  using assms by (simp add: saveBatched_def batchLoop_fold fold_insertPerson Let_def)

lemma adapterSave_eq:
  assumes "people \<noteq> []"
  shows "adapterSave a env c people hist =
    (let rows = map toRow (filter eligible people);
         hist0 = hist @ openingCalls a c;
         oks = outcomes env c hist0 rows;
         hist1 = hist0 @ map (Insert c) rows
     in if \<not> begin_ok env hist c
        then (if a = Sqlite then None else Some (Inl SaveFailed, hist @ [Begin c, Rollback c]))
        else if a = Sqlite \<and> \<not> prepare_ok env (hist @ [Begin c]) c then None
        else if commit_ok env hist1 c
        then Some (Inr \<lparr> inserted = length (filter id oks),
                         errors = Count (length (filter Not oks)) \<rparr>,
                   hist1 @ [Commit c])
        else if a = Sqlite \<and> \<not> rollback_ok env (hist1 @ [Commit c]) c then None
        else Some (Inl SaveFailed, hist1 @ [Commit c, Rollback c]))"
proof (cases a)
  case Sqlite
  then show ?thesis
    using saveToDatabase_sqlite_eq [OF assms, of env c hist]
    by (simp add: openingCalls_def Let_def)
next
  case Mysql
  then show ?thesis
    using saveBatched_eq [OF assms, of env c hist]
    by (simp add: openingCalls_def Let_def saveToDatabase_mysql_def)
next
  case Postgres
  then show ?thesis
    using saveBatched_eq [OF assms, of env c hist]
    by (simp add: openingCalls_def Let_def saveToDatabase_postgres_def)
qed

text \<open>
  Claim C5. On a non-empty batch, once the transaction is open (\<open>BEGIN\<close> accepted, and
  for SQLite the statement prepared), every eligible record is attempted once, in the
  order of the batch and whatever the outcome of the attempts before it; the rejection
  of an insert only adds one to \<open>errors\<close>. When the engine then accepts \<open>COMMIT\<close>, the
  save resolves with \<open>inserted\<close> the number of accepted and \<open>errors\<close> the number of
  rejected attempts, which add up to the number of eligible records. The save fails as
  a whole only on the transaction itself: a refused \<open>BEGIN\<close> or \<open>COMMIT\<close> rejects the
  promise of the MySQL and PostgreSQL adapters; on SQLite a refused \<open>COMMIT\<close> rejects it
  when the \<open>ROLLBACK\<close> is accepted, and a refused \<open>BEGIN\<close>, preparation or \<open>ROLLBACK\<close>
  ends the process.
\<close>

theorem adapterSave_partial_failure:
  "people \<noteq> [] \<Longrightarrow>
     (let rows = map toRow (filter eligible people);
          hist0 = hist @ openingCalls a c;
          oks = outcomes env c hist0 rows;
          hist1 = hist0 @ map (Insert c) rows
      in adapterSave a env c people hist =
           (if \<not> begin_ok env hist c
            then (if a = Sqlite then None
                  else Some (Inl SaveFailed, hist @ [Begin c, Rollback c]))
            else if a = Sqlite \<and> \<not> prepare_ok env (hist @ [Begin c]) c then None
            else if commit_ok env hist1 c
            then Some (Inr \<lparr> inserted = length (filter id oks),
                             errors = Count (length (filter Not oks)) \<rparr>,
                       hist1 @ [Commit c])
            else if a = Sqlite \<and> \<not> rollback_ok env (hist1 @ [Commit c]) c then None
            else Some (Inl SaveFailed, hist1 @ [Commit c, Rollback c]))
         \<and> length (filter id oks) + length (filter Not oks) = length rows)"
proof -
  assume ne: "people \<noteq> []"
  show ?thesis
    using adapterSave_eq [OF ne, of a env c hist]
    by (simp add: Let_def outcomes_count)
qed

lemma sample_rows:
  "eligible [(asc ''external_id'', Str (asc ''A1''))]"
  "eligible [(asc ''external_id'', Str (asc ''BAD''))]"
  "eligible [(asc ''external_id'', Str (asc ''A2''))]"
  "\<not> eligible [(asc ''status'', Str (asc ''Actif''))]"
  "col_external_id (toRow [(asc ''external_id'', Str (asc ''A1''))]) = Str (asc ''A1'')"
  "col_external_id (toRow [(asc ''external_id'', Str (asc ''BAD''))]) = Str (asc ''BAD'')"
  "col_external_id (toRow [(asc ''external_id'', Str (asc ''A2''))]) = Str (asc ''A2'')"
  by (simp_all add: eligible_def skip_def get_def toRow_def orEmpty_def)

lemma sampleEnv_fields:
  "begin_ok sampleEnv h c" "prepare_ok sampleEnv h c" "commit_ok sampleEnv h c"
  "rollback_ok sampleEnv h c" "init_ok sampleEnv h a" "close_ok sampleEnv h c"
  "insert_ok sampleEnv h c r \<longleftrightarrow> col_external_id r \<noteq> Str (asc ''BAD'')"
  "env_DB_TYPE sampleEnv = None"
  by (simp_all add: sampleEnv_def)

text \<open>
  A batch of four records on the sample engine, through the SQLite and the MySQL adapter:
  the second record is rejected, the fourth is not eligible; the third is inserted all
  the same, and the calls made on the engine are those of the three attempts inside one
  transaction.
\<close>

theorem adapterSave_partial_failure_witness:
  "adapterSave Sqlite sampleEnv 0
      [[(asc ''external_id'', Str (asc ''A1''))], [(asc ''external_id'', Str (asc ''BAD''))],
       [(asc ''external_id'', Str (asc ''A2''))], [(asc ''status'', Str (asc ''Actif''))]] []
     = Some (Inr \<lparr> inserted = 2, errors = Count 1 \<rparr>,
             [Begin 0, Prepare 0,
              Insert 0 (toRow [(asc ''external_id'', Str (asc ''A1''))]),
              Insert 0 (toRow [(asc ''external_id'', Str (asc ''BAD''))]),
              Insert 0 (toRow [(asc ''external_id'', Str (asc ''A2''))]),
              Commit 0])
   \<and> adapterSave Mysql sampleEnv 0
      [[(asc ''external_id'', Str (asc ''A1''))], [(asc ''external_id'', Str (asc ''BAD''))],
       [(asc ''external_id'', Str (asc ''A2''))], [(asc ''status'', Str (asc ''Actif''))]] []
     = Some (Inr \<lparr> inserted = 2, errors = Count 1 \<rparr>,
             [Begin 0,
              Insert 0 (toRow [(asc ''external_id'', Str (asc ''A1''))]),
              Insert 0 (toRow [(asc ''external_id'', Str (asc ''BAD''))]),
              Insert 0 (toRow [(asc ''external_id'', Str (asc ''A2''))]),
              Commit 0])"
  using adapterSave_partial_failure
    [where people = "[[(asc ''external_id'', Str (asc ''A1''))], [(asc ''external_id'', Str (asc ''BAD''))],
          [(asc ''external_id'', Str (asc ''A2''))], [(asc ''status'', Str (asc ''Actif''))]]"
       and env = sampleEnv and c = 0 and hist = "[]" and a = Sqlite]
    adapterSave_partial_failure
    [where people = "[[(asc ''external_id'', Str (asc ''A1''))], [(asc ''external_id'', Str (asc ''BAD''))],
          [(asc ''external_id'', Str (asc ''A2''))], [(asc ''status'', Str (asc ''Actif''))]]"
       and env = sampleEnv and c = 0 and hist = "[]" and a = Mysql]
  by (simp add: Let_def sample_rows sampleEnv_fields openingCalls_def)

text \<open>
  Claim C4. A record with no truthy \<open>birth_date\<close>, no truthy \<open>external_id\<close> and not both
  \<open>first_name\<close> and \<open>last_name\<close> truthy is skipped by every adapter: taking it out of a
  batch that stays non-empty changes neither the outcome of the save nor the calls made
  on the engine, whatever the engine answers. Saved alone, it gives
  \<open>{inserted: 0, errors: 0}\<close> with no insert attempted, when the engine opens the
  transaction (\<open>BEGIN\<close>, and for SQLite the preparation of the statement) and commits
  it. A record with only a \<open>status\<close> is such a record.
\<close>

theorem adapterSave_skips:
  "(\<not> truthy (get p (asc ''birth_date'')) \<and> \<not> truthy (get p (asc ''external_id''))
      \<and> \<not> (truthy (get p (asc ''first_name'')) \<and> truthy (get p (asc ''last_name'')))
      \<and> xs @ ys \<noteq> [] \<longrightarrow>
      adapterSave a env c (xs @ p # ys) hist = adapterSave a env c (xs @ ys) hist)
   \<and> (\<not> truthy (get p (asc ''birth_date'')) \<and> \<not> truthy (get p (asc ''external_id''))
      \<and> \<not> (truthy (get p (asc ''first_name'')) \<and> truthy (get p (asc ''last_name'')))
      \<and> begin_ok env hist c \<and> (a = Sqlite \<longrightarrow> prepare_ok env (hist @ [Begin c]) c)
      \<and> commit_ok env (hist @ openingCalls a c) c \<longrightarrow>
      adapterSave a env c [p] hist
        = Some (Inr \<lparr> inserted = 0, errors = Count 0 \<rparr>, hist @ openingCalls a c @ [Commit c]))
   \<and> \<not> truthy (get [(asc ''status'', v)] (asc ''birth_date''))
   \<and> \<not> truthy (get [(asc ''status'', v)] (asc ''external_id''))
   \<and> \<not> truthy (get [(asc ''status'', v)] (asc ''first_name''))"
proof -
  have one: "adapterSave a env c (xs @ p # ys) hist = adapterSave a env c (xs @ ys) hist"
    if "skip p" "xs @ ys \<noteq> []"
  proof -
    have "filter eligible (xs @ p # ys) = filter eligible (xs @ ys)"
      using that(1) by (simp add: eligible_def)
    then show ?thesis using that(2) by (simp add: adapterSave_eq)
  qed
  have two: "adapterSave a env c [p] hist
        = Some (Inr \<lparr> inserted = 0, errors = Count 0 \<rparr>, hist @ openingCalls a c @ [Commit c])"
    if "skip p" "begin_ok env hist c" "a = Sqlite \<longrightarrow> prepare_ok env (hist @ [Begin c]) c"
       "commit_ok env (hist @ openingCalls a c) c"
    using that adapterSave_eq [of "[p]" a env c hist] by (auto simp: Let_def eligible_def)
  show ?thesis using one two by (auto simp: skip_def get_def)
qed

text \<open>
  On the sample engine: a status-only record in a batch with one good record, and alone.
\<close>

theorem adapterSave_skips_witness:
  "adapterSave Sqlite sampleEnv 0
      [[(asc ''external_id'', Str (asc ''A1''))], [(asc ''status'', Str (asc ''Actif''))]] []
     = adapterSave Sqlite sampleEnv 0 [[(asc ''external_id'', Str (asc ''A1''))]] []
   \<and> adapterSave Sqlite sampleEnv 0 [[(asc ''status'', Str (asc ''Actif''))]] []
     = Some (Inr \<lparr> inserted = 0, errors = Count 0 \<rparr>, [Begin 0, Prepare 0, Commit 0])"
  using adapterSave_skips
    [where p = "[(asc ''status'', Str (asc ''Actif''))]"
       and xs = "[[(asc ''external_id'', Str (asc ''A1''))]]" and ys = "[]"
       and a = Sqlite and env = sampleEnv and c = 0 and hist = "[]"]
  by (simp add: get_def sampleEnv_fields openingCalls_def)

section \<open>The connection registry and the orchestrator\<close>

lemma adapterSave_Nil:
  "adapterSave a env c [] hist = Some (Inr \<lparr> inserted = 0, errors = NoCount \<rparr>, hist)"
  by (cases a)
     (simp_all add: saveToDatabase_sqlite_def saveToDatabase_mysql_def saveToDatabase_postgres_def
        saveBatched_def)

lemma saveToDatabase_Nil:
  "saveToDatabase env db [] st = Some (Inr \<lparr> inserted = 0, errors = NoCount \<rparr>, st)"
  by (simp add: saveToDatabase_def adapterSave_Nil)

lemma chunkLoop_Nil:
  "chunkLoop env db [] csize 0 n e st = Some (Inr \<lparr> inserted = n, errors = e \<rparr>, st)"
  by (subst chunkLoop.simps) simp

text \<open>
  An import of the empty list: the save is made directly when the chunk size is not
  negative; with a negative chunk size the list goes to the chunk loop, which makes no
  iteration and leaves the total of the errors at its initial \<open>0\<close>.
\<close>

lemma processExcelFile_Nil:
  "processExcelFile env lc (Inr []) opts st =
     (case getConnection env lc (connectionId opts) (dbOptions opts) st of
        (Inl e, st1) \<Rightarrow> Some (Inl e, snd (closeConnection env (connectionId opts) False st1))
      | (Inr db, st1) \<Rightarrow>
          (case closeConnection env (connectionId opts) False st1 of
             (Inl e, st2) \<Rightarrow> Some (Inl e, snd (closeConnection env (connectionId opts) False st2))
           | (Inr u, st2) \<Rightarrow>
               Some (Inr \<lparr> inserted = 0,
                           errors = (if 0 \<le> effectiveChunkSize opts then NoCount else Count 0) \<rparr>,
                     st2)))"
  by (simp add: processExcelFile_def saveToDatabase_Nil chunkLoop_Nil
        split: prod.splits sum.splits)

text \<open>
  Claim C10, as amended. Every adapter answers a save of the empty list with
  \<open>{inserted: 0}\<close>, an object without \<open>errors\<close>, and makes no call on the engine. When
  the parsed list of an import is empty and the chunk size is not negative,
  \<open>processExcelFile\<close> opens the connection and closes it, and resolves with
  \<open>inserted = 0\<close> and an undefined \<open>errors\<close>; it rejects when the connection cannot be
  opened or closed.
\<close>

theorem processExcelFile_empty:
  "adapterSave a env c [] hist = Some (Inr \<lparr> inserted = 0, errors = NoCount \<rparr>, hist)
   \<and> (0 \<le> effectiveChunkSize opts \<longrightarrow>
        processExcelFile env lc (Inr []) opts st =
          (case getConnection env lc (connectionId opts) (dbOptions opts) st of
             (Inl e, st1) \<Rightarrow> Some (Inl e, snd (closeConnection env (connectionId opts) False st1))
           | (Inr db, st1) \<Rightarrow>
               (case closeConnection env (connectionId opts) False st1 of
                  (Inl e, st2) \<Rightarrow>
                    Some (Inl e, snd (closeConnection env (connectionId opts) False st2))
                | (Inr u, st2) \<Rightarrow> Some (Inr \<lparr> inserted = 0, errors = NoCount \<rparr>, st2))))"
  by (simp add: adapterSave_Nil processExcelFile_Nil)

lemma getAdapter_sqlite: "getAdapter toLowerCaseBasic (asc ''sqlite'') = Sqlite"
  by (simp add: getAdapter_def toLowerCaseBasic_def asc_def)



lemma getConnection_sample:
  "getConnection sampleEnv toLowerCaseBasic None \<lparr> otype = None \<rparr> emptyState
     = (Inr \<lparr> connection = 0, adapter = Sqlite, ctype = asc ''sqlite'' \<rparr>,
        \<lparr> activeConnections =
            [(asc ''default'', \<lparr> connection = 0, adapter = Sqlite, ctype = asc ''sqlite'' \<rparr>)],
          history = [Init Sqlite] \<rparr>)"
  by (simp add: getConnection_def emptyState_def connectionKey_def orElse_def sampleEnv_fields
        getAdapter_sqlite Let_def)

lemma closeConnection_sample:
  "closeConnection sampleEnv None False
     \<lparr> activeConnections =
         [(asc ''default'', \<lparr> connection = 0, adapter = Sqlite, ctype = asc ''sqlite'' \<rparr>)],
       history = [Init Sqlite] \<rparr>
   = (Inr (), \<lparr> activeConnections = [], history = [Init Sqlite, Close 0 False] \<rparr>)"
  by (simp add: closeConnection_def connectionKey_def sampleEnv_fields)

lemma effectiveChunkSize_samples:
  "effectiveChunkSize \<lparr> connectionId = None, dbOptions = \<lparr> otype = None \<rparr>, chunkSize = None \<rparr>
     = 100000"
  "effectiveChunkSize \<lparr> connectionId = None, dbOptions = \<lparr> otype = None \<rparr>, chunkSize = Some (- 1) \<rparr>
     = - 1"
  by (simp_all add: effectiveChunkSize_def)

text \<open>An import of an empty list into a fresh SQLite connection of the sample engine.\<close>

theorem processExcelFile_empty_witness:
  "processExcelFile sampleEnv toLowerCaseBasic (Inr [])
      \<lparr> connectionId = None, dbOptions = \<lparr> otype = None \<rparr>, chunkSize = None \<rparr> emptyState
     = Some (Inr \<lparr> inserted = 0, errors = NoCount \<rparr>,
             \<lparr> activeConnections = [], history = [Init Sqlite, Close 0 False] \<rparr>)"
  using processExcelFile_empty
    [where env = sampleEnv and lc = toLowerCaseBasic and st = emptyState and a = Sqlite
       and c = 0 and hist = "[]"
       and opts = "\<lparr> connectionId = None, dbOptions = \<lparr> otype = None \<rparr>, chunkSize = None \<rparr>"]
  by (simp add: getConnection_sample closeConnection_sample effectiveChunkSize_samples)

text \<open>
  Claim C10 as stated fails: with the chunk size \<open>-1\<close>, as \<open>--chunk-size=-1\<close> gives it,
  the import of an empty list resolves with \<open>errors\<close> the number \<open>0\<close>.
\<close>

theorem processExcelFile_negative_chunk_counterexample:
  "processExcelFile sampleEnv toLowerCaseBasic (Inr [])
      \<lparr> connectionId = None, dbOptions = \<lparr> otype = None \<rparr>, chunkSize = Some (- 1) \<rparr> emptyState
     = Some (Inr \<lparr> inserted = 0, errors = Count 0 \<rparr>,
             \<lparr> activeConnections = [], history = [Init Sqlite, Close 0 False] \<rparr>)"
  by (simp add: processExcelFile_Nil getConnection_sample closeConnection_sample
        effectiveChunkSize_samples)

subsection \<open>The life of a registry entry\<close>






lemma getConnection_sample2:
  "getConnection sampleEnv toLowerCaseBasic None \<lparr> otype = None \<rparr>
     \<lparr> activeConnections = [], history = [Init Sqlite, Close 0 False] \<rparr>
     = (Inr \<lparr> connection = 2, adapter = Sqlite, ctype = asc ''sqlite'' \<rparr>,
        \<lparr> activeConnections =
            [(asc ''default'', \<lparr> connection = 2, adapter = Sqlite, ctype = asc ''sqlite'' \<rparr>)],
          history = [Init Sqlite, Close 0 False, Init Sqlite] \<rparr>)"
  by (simp add: getConnection_def connectionKey_def orElse_def sampleEnv_fields getAdapter_sqlite
        Let_def)



section \<open>Saving through the database module\<close>





lemma applyMappings_Ada:
  "applyMappings [(asc ''name'', Str (asc ''Girard David'')), (asc ''status'', Str (asc ''Actif''))]
     = [(asc ''name'', Str (asc ''Girard David'')), (asc ''status'', Str (asc ''Actif''))]"
  by (rule applyMappings_id) (auto simp: isAlias_samples)

lemma normalizePersonFields_Ada:
  "normalizePersonFields
     [(asc ''name'', Str (asc ''Girard David'')), (asc ''status'', Str (asc ''Actif''))]
   = Inr [(asc ''name'', Str (asc ''Girard David'')), (asc ''status'', Str (asc ''Actif'')),
          (asc ''last_name'', Str (asc ''Girard'')), (asc ''first_name'', Str (asc ''David''))]"
  by (simp add: normalizePersonFields_def applyMappings_Ada splitName_def combineName_def
        get_def split_samples Let_def)



end
